theory Spec2Isabelle
  imports Complex_Main "HOL-Library.Word"
begin

section \<open>Data model\<close>

text \<open>
  The embedding follows \<^verbatim>\<open>src/tides_spin.c\<close>. A C \<^verbatim>\<open>double\<close> is read as a
  \<^typ>\<open>real\<close>: every statement below is about the arithmetic the code writes down, taken
  exactly (no rounding, no infinities, no NaN; a division by zero is HOL's \<open>x / 0 = 0\<close> and
  is kept away by the hypotheses where a claim excludes it). An \<^verbatim>\<open>unsigned int\<close> is a
  \<^typ>\<open>32 word\<close>, so the counter \<^verbatim>\<open>Nspins\<close> and the products \<^verbatim>\<open>3*Nspins\<close> wrap as
  they do in C.
\<close>

text \<open>\<^verbatim>\<open>struct reb_vec3d\<close>: three doubles.\<close>

record reb_vec3d =
  vec_x :: real
  vec_y :: real
  vec_z :: real

text \<open>
  \<^verbatim>\<open>struct reb_particle\<close>: the fields the file reads or writes. The C fields are
  \<^verbatim>\<open>x y z vx vy vz ax ay az m r ap\<close>; they carry the prefix \<open>p_\<close> here. The field
  \<^verbatim>\<open>ap\<close> is the head of the particle's parameter list.
\<close>

record reb_particle =
  p_x :: real
  p_y :: real
  p_z :: real
  p_vx :: real
  p_vy :: real
  p_vz :: real
  p_ax :: real
  p_ay :: real
  p_az :: real
  p_m :: real
  p_r :: real
  p_ap :: "string \<rightharpoonup> real"

text \<open>
  Modelled from the spec: the per-body parameter store and its two operations
  \<^verbatim>\<open>rebx_get_param\<close> and \<^verbatim>\<open>rebx_set_param_double\<close>, which are defined outside \<^verbatim>\<open>tides_spin.c\<close>.
  The spec gives "existence check + typed read of a named scalar" and "typed write
  (create-or-update) of a named scalar": a finite map from names to doubles, where the
  NULL pointer of a failed lookup is \<open>None\<close>.
\<close>

definition rebx_get_param :: "(string \<rightharpoonup> real) \<Rightarrow> string \<Rightarrow> real option" where
  "rebx_get_param ap name = ap name"

definition rebx_set_param_double :: "(string \<rightharpoonup> real) \<Rightarrow> string \<Rightarrow> real \<Rightarrow> (string \<rightharpoonup> real)" where
  "rebx_set_param_double ap name v = ap(name \<mapsto> v)"

section \<open>The force kernel\<close>

text \<open>\<^verbatim>\<open>rebx_calculate_spin_orbit_accelerations\<close>, statement by statement.\<close>

definition rebx_calculate_spin_orbit_accelerations ::
  "reb_particle \<Rightarrow> reb_particle \<Rightarrow> real \<Rightarrow> real \<Rightarrow> real \<Rightarrow> real \<Rightarrow> real \<Rightarrow> real \<Rightarrow> reb_vec3d" where
  "rebx_calculate_spin_orbit_accelerations source target G k2 sigma sx sy sz =
    (let ms = p_m source;
         Rs = p_r source;
         mt = p_m target;
         mtot = ms + mt;
         mu_ij = ms * mt / mtot;
         big_a = k2 * (Rs * Rs * Rs * Rs * Rs);
         dx = p_x source - p_x target;
         dy = p_y source - p_y target;
         dz = p_z source - p_z target;
         d2 = dx * dx + dy * dy + dz * dz;
         dr = sqrt d2;
         dvx = p_vx source - p_vx target;
         dvy = p_vy source - p_vy target;
         dvz = p_vz source - p_vz target;
         tot_force = \<lparr>vec_x = 0, vec_y = 0, vec_z = 0\<rparr>
     in if k2 \<noteq> 0 then
          (let quad_prefactor = mt * big_a / mu_ij;
               omega_dot_d = sx * dx + sy * dy + sz * dz;
               omega_squared = sx * sx + sy * sy + sz * sz;
               t1 = 5 * omega_dot_d * omega_dot_d / (2 * (dr * dr * dr * dr * dr * dr * dr));
               t2 = omega_squared / (2 * (dr * dr * dr * dr * dr));
               t3 = omega_dot_d / (dr * dr * dr * dr * dr);
               t4 = 6 * G * mt / (dr * dr * dr * dr * dr * dr * dr * dr);
               tot_force = \<lparr>vec_x = quad_prefactor * ((t1 - t2 - t4) * dx - (t3 * sx)),
                            vec_y = quad_prefactor * ((t1 - t2 - t4) * dy - (t3 * sy)),
                            vec_z = quad_prefactor * ((t1 - t2 - t4) * dz - (t3 * sz))\<rparr>
           in if sigma \<noteq> 0 then
                (let d_dot_vel = dx * dvx + dy * dvy + dz * dvz;
                     vec1_x = 3 * d_dot_vel * dx;
                     vec1_y = 3 * d_dot_vel * dy;
                     vec1_z = 3 * d_dot_vel * dz;
                     hx = dy * dvz - dz * dvy;
                     hy = dz * dvx - dx * dvz;
                     hz = dx * dvy - dy * dvx;
                     comp_2_x = hx - d2 * sx;
                     comp_2_y = hy - d2 * sy;
                     comp_2_z = hz - d2 * sz;
                     vec2_x = comp_2_y * dz - comp_2_z * dy;
                     vec2_y = comp_2_z * dx - comp_2_x * dz;
                     vec2_z = comp_2_x * dy - comp_2_y * dx;
                     prefactor = (- 9 * sigma * mt * mt * big_a * big_a)
                                   / (2 * mu_ij * (d2 * d2 * d2 * d2 * d2))
                 in \<lparr>vec_x = vec_x tot_force + prefactor * (vec1_x + vec2_x),
                     vec_y = vec_y tot_force + prefactor * (vec1_y + vec2_y),
                     vec_z = vec_z tot_force + prefactor * (vec1_z + vec2_z)\<rparr>)
              else tot_force)
        else tot_force)"

section \<open>The force law in vector form\<close>

text \<open>
  The vocabulary of the specification: dot and cross product, scaling and sum of
  3-vectors, the separation of two bodies (source minus target), their relative velocity
  and their reduced mass.
\<close>

definition vec3 :: "real \<Rightarrow> real \<Rightarrow> real \<Rightarrow> reb_vec3d" where
  "vec3 a b c = \<lparr>vec_x = a, vec_y = b, vec_z = c\<rparr>"

definition vdot :: "reb_vec3d \<Rightarrow> reb_vec3d \<Rightarrow> real" where
  "vdot u v = vec_x u * vec_x v + vec_y u * vec_y v + vec_z u * vec_z v"

definition vcross :: "reb_vec3d \<Rightarrow> reb_vec3d \<Rightarrow> reb_vec3d" where
  "vcross u v = vec3 (vec_y u * vec_z v - vec_z u * vec_y v)
                     (vec_z u * vec_x v - vec_x u * vec_z v)
                     (vec_x u * vec_y v - vec_y u * vec_x v)"

definition vscale :: "real \<Rightarrow> reb_vec3d \<Rightarrow> reb_vec3d" where
  "vscale c v = vec3 (c * vec_x v) (c * vec_y v) (c * vec_z v)"

definition vadd :: "reb_vec3d \<Rightarrow> reb_vec3d \<Rightarrow> reb_vec3d" where
  "vadd u v = vec3 (vec_x u + vec_x v) (vec_y u + vec_y v) (vec_z u + vec_z v)"

definition vsub :: "reb_vec3d \<Rightarrow> reb_vec3d \<Rightarrow> reb_vec3d" where
  "vsub u v = vec3 (vec_x u - vec_x v) (vec_y u - vec_y v) (vec_z u - vec_z v)"

definition position :: "reb_particle \<Rightarrow> reb_vec3d" where
  "position p = vec3 (p_x p) (p_y p) (p_z p)"

definition velocity :: "reb_particle \<Rightarrow> reb_vec3d" where
  "velocity p = vec3 (p_vx p) (p_vy p) (p_vz p)"

definition separation :: "reb_particle \<Rightarrow> reb_particle \<Rightarrow> reb_vec3d" where
  "separation source target = vsub (position source) (position target)"

definition relative_velocity :: "reb_particle \<Rightarrow> reb_particle \<Rightarrow> reb_vec3d" where
  "relative_velocity source target = vsub (velocity source) (velocity target)"

definition distance :: "reb_particle \<Rightarrow> reb_particle \<Rightarrow> real" where
  "distance source target = sqrt (vdot (separation source target) (separation source target))"

definition reduced_mass :: "reb_particle \<Rightarrow> reb_particle \<Rightarrow> real" where
  "reduced_mass a b = p_m a * p_m b / (p_m a + p_m b)"

text \<open>
  The quadrupole term as the specification words it: the prefactor
  \<open>m_target (k2 R_source^5) / \<mu>\<close>, a part along the separation \<open>r\<close> with the powers
  \<open>r^-7\<close>, \<open>r^-5\<close> and \<open>r^-8\<close>, and a part along the spin \<open>\<Omega>\<close> with \<open>r^-5\<close>.
\<close>

definition quadrupole_term ::
  "reb_particle \<Rightarrow> reb_particle \<Rightarrow> real \<Rightarrow> real \<Rightarrow> reb_vec3d \<Rightarrow> reb_vec3d" where
  "quadrupole_term source target G k2 Omega =
    (let rv = separation source target;
         d = distance source target;
         pref = p_m target * (k2 * p_r source ^ 5) / reduced_mass source target
     in vadd (vscale (pref * (5 * (vdot Omega rv)\<^sup>2 / (2 * d ^ 7)
                              - vdot Omega Omega / (2 * d ^ 5)
                              - 6 * G * p_m target / d ^ 8)) rv)
             (vscale (- (pref * (vdot Omega rv / d ^ 5))) Omega))"

text \<open>
  The dissipative term as the specification words it:
  \<open>- 9 \<sigma> m_target^2 (k2 R_source^5)^2 / (2 \<mu> r^10)\<close> times
  \<open>3 (r \<cdot> v) r + (h - r^2 \<Omega>) \<times> r\<close> with \<open>h = r \<times> v\<close>.
\<close>

definition dissipative_term ::
  "reb_particle \<Rightarrow> reb_particle \<Rightarrow> real \<Rightarrow> real \<Rightarrow> reb_vec3d \<Rightarrow> reb_vec3d" where
  "dissipative_term source target k2 sigma Omega =
    (let rv = separation source target;
         v = relative_velocity source target;
         d = distance source target;
         h = vcross rv v
     in vscale (- 9 * sigma * (p_m target)\<^sup>2 * (k2 * p_r source ^ 5)\<^sup>2
                  / (2 * reduced_mass source target * d ^ 10))
               (vadd (vscale (3 * vdot rv v) rv)
                     (vcross (vsub h (vscale (d\<^sup>2) Omega)) rv)))"

text \<open>Two bodies and a spin used to evaluate the kernel at a concrete input.\<close>

definition body0 :: reb_particle where
  "body0 = \<lparr>p_x = 0, p_y = 0, p_z = 0, p_vx = 0, p_vy = 0, p_vz = 0,
             p_ax = 0, p_ay = 0, p_az = 0, p_m = 1, p_r = 1, p_ap = Map.empty\<rparr>"

definition body1 :: reb_particle where
  "body1 = body0\<lparr>p_x := 1, p_vy := 1\<rparr>"

definition body1_reversed :: reb_particle where
  "body1_reversed = body0\<lparr>p_x := 1, p_vy := - 1\<rparr>"

section \<open>Contributions to the kernel's result\<close>

text \<open>
  The kernel adds the dissipative term to the quadrupole term only when \<open>sigma \<noteq> 0\<close>:
  its quadrupole contribution is what it returns for \<open>sigma = 0\<close>, its dissipative
  contribution is the rest. Reversing the relative velocity of a pair keeps positions,
  masses and radii and negates source velocity minus target velocity.
\<close>

definition quadrupole_contribution ::
  "reb_particle \<Rightarrow> reb_particle \<Rightarrow> real \<Rightarrow> real \<Rightarrow> real \<Rightarrow> real \<Rightarrow> real \<Rightarrow> reb_vec3d" where
  "quadrupole_contribution source target G k2 sx sy sz =
     rebx_calculate_spin_orbit_accelerations source target G k2 0 sx sy sz"

definition dissipative_contribution ::
  "reb_particle \<Rightarrow> reb_particle \<Rightarrow> real \<Rightarrow> real \<Rightarrow> real \<Rightarrow> real \<Rightarrow> real \<Rightarrow> real \<Rightarrow> reb_vec3d" where
  "dissipative_contribution source target G k2 sigma sx sy sz =
     vsub (rebx_calculate_spin_orbit_accelerations source target G k2 sigma sx sy sz)
          (rebx_calculate_spin_orbit_accelerations source target G k2 0 sx sy sz)"

definition velocity_reversed ::
  "reb_particle \<Rightarrow> reb_particle \<Rightarrow> reb_particle \<Rightarrow> reb_particle \<Rightarrow> bool" where
  "velocity_reversed source target source' target' \<longleftrightarrow>
     position source' = position source \<and> position target' = position target \<and>
     p_m source' = p_m source \<and> p_m target' = p_m target \<and>
     p_r source' = p_r source \<and> p_r target' = p_r target \<and>
     relative_velocity source' target' = vscale (- 1) (relative_velocity source target)"

section \<open>The simulation and its auxiliary ODEs\<close>

text \<open>
  Modelled from the spec: \<^verbatim>\<open>struct reb_ode\<close>, \<^verbatim>\<open>struct reb_simulation\<close>,
  \<^verbatim>\<open>struct rebx_force\<close> and \<^verbatim>\<open>struct rebx_extras\<close> are declared in headers that are
  not part of the source; only the fields the source reads or writes are kept, and the
  \<^verbatim>\<open>int\<close> counts \<^verbatim>\<open>N\<close> and \<^verbatim>\<open>N_var\<close> are integers (\<^verbatim>\<open>N - N_var\<close> is a count of particles
  and does not overflow). The ODE subsystem "registers a
  state vector of given length with three callback hooks (derivative, pre-step sync,
  post-step sync) and an opaque back-reference to the simulation". A callback is the
  name of one of the three static functions of the source, the back-reference is either
  NULL or the one simulation. The array \<^verbatim>\<open>sim->odes\<close> is a list, NULL when empty; a
  pointer to an ODE stored in the effect's parameter list is the ODE's index in it.
\<close>

datatype ode_callback = Spin_derivatives | Spin_sync_pre | Spin_sync_post

datatype sim_pointer = Null_pointer | Simulation_pointer

record reb_ode =
  ode_length :: "32 word"
  ode_y :: "real list"
  ode_ref :: sim_pointer
  ode_derivatives :: "ode_callback option"
  ode_pre_timestep :: "ode_callback option"
  ode_post_timestep :: "ode_callback option"

record reb_simulation =
  sim_G :: real
  sim_N :: int
  sim_N_var :: int
  sim_particles :: "reb_particle list"
  sim_odes :: "reb_ode list"

record rebx_force =
  force_ap :: "string \<rightharpoonup> nat"

record rebx_extras =
  rebx_sim :: "reb_simulation option"

section \<open>The pairwise force accumulator\<close>

text \<open>
  \<^verbatim>\<open>rebx_spin_orbit_accelerations\<close> writes through its two particle pointers. Both point
  into the particle array, so the model takes the array and the two indices and performs
  the six assignments in the order of the source.
\<close>

definition rebx_spin_orbit_accelerations ::
  "reb_particle list \<Rightarrow> nat \<Rightarrow> nat \<Rightarrow> real \<Rightarrow> real \<Rightarrow> real \<Rightarrow> real \<Rightarrow> real \<Rightarrow> real
     \<Rightarrow> reb_particle list" where
  "rebx_spin_orbit_accelerations particles source target G k2 sigma sx sy sz =
    (let ms = p_m (particles ! source);
         mt = p_m (particles ! target);
         mtot = ms + mt;
         tot_force = rebx_calculate_spin_orbit_accelerations
                       (particles ! source) (particles ! target) G k2 sigma sx sy sz;
         ps = particles;
         ps = ps[target := (ps ! target)\<lparr>p_ax := p_ax (ps ! target) - (ms / mtot) * vec_x tot_force\<rparr>];
         ps = ps[target := (ps ! target)\<lparr>p_ay := p_ay (ps ! target) - (ms / mtot) * vec_y tot_force\<rparr>];
         ps = ps[target := (ps ! target)\<lparr>p_az := p_az (ps ! target) - (ms / mtot) * vec_z tot_force\<rparr>];
         ps = ps[source := (ps ! source)\<lparr>p_ax := p_ax (ps ! source) + (mt / mtot) * vec_x tot_force\<rparr>];
         ps = ps[source := (ps ! source)\<lparr>p_ay := p_ay (ps ! source) + (mt / mtot) * vec_y tot_force\<rparr>];
         ps = ps[source := (ps ! source)\<lparr>p_az := p_az (ps ! source) + (mt / mtot) * vec_z tot_force\<rparr>]
     in ps)"

text \<open>
  \<^verbatim>\<open>rebx_tides_spin\<close>: the body of the inner loop for target \<open>j\<close>, the body of the outer
  loop for source \<open>i\<close>, and the function. It returns the warnings it raised and the
  particle array.
\<close>

definition tides_spin_target ::
  "real \<Rightarrow> nat \<Rightarrow> real \<Rightarrow> real \<Rightarrow> real \<Rightarrow> real \<Rightarrow> real \<Rightarrow> nat \<Rightarrow> reb_particle list
     \<Rightarrow> reb_particle list" where
  "tides_spin_target G i k2 sigma_in sx sy sz j particles =
    (if i = j then particles
     else if p_m (particles ! i) = 0 \<or> p_m (particles ! j) = 0 then particles
     else rebx_spin_orbit_accelerations particles i j G k2 sigma_in sx sy sz)"

definition tides_spin_source :: "real \<Rightarrow> int \<Rightarrow> nat \<Rightarrow> reb_particle list \<Rightarrow> reb_particle list" where
  "tides_spin_source G N i particles =
    (let source = particles ! i;
         k2 = rebx_get_param (p_ap source) ''k2'';
         sigma = rebx_get_param (p_ap source) ''sigma'';
         sx = rebx_get_param (p_ap source) ''sx'';
         sy = rebx_get_param (p_ap source) ''sy'';
         sz = rebx_get_param (p_ap source) ''sz''
     in if sx \<noteq> None \<and> sy \<noteq> None \<and> sz \<noteq> None \<and> k2 \<noteq> None then
          (let sigma_in = (if sigma \<noteq> None then the sigma else 0)
           in fold (tides_spin_target G i (the k2) sigma_in (the sx) (the sy) (the sz))
                   [0..<nat N] particles)
        else particles)"

definition rebx_tides_spin ::
  "reb_simulation \<Rightarrow> rebx_force \<Rightarrow> reb_particle list \<Rightarrow> int \<Rightarrow> string list \<times> reb_particle list" where
  "rebx_tides_spin sim effect particles N =
    (let G = sim_G sim;
         warnings = (if sim_odes sim = []
                     then [''Spin axes are not being evolved. Call rebx_spin_initialize_ode to evolve'']
                     else [])
     in (warnings, fold (tides_spin_source G N) [0..<nat N] particles))"

text \<open>A particle with its acceleration blanked: everything the accumulator must not touch.\<close>

definition outside_acceleration :: "reb_particle \<Rightarrow> reb_particle" where
  "outside_acceleration p = p\<lparr>p_ax := 0, p_ay := 0, p_az := 0\<rparr>"

text \<open>A pair of tagged bodies for the evaluation of the accumulator.\<close>

definition spinning_body :: reb_particle where
  "spinning_body = body1\<lparr>p_ap := [''k2'' \<mapsto> 1, ''sx'' \<mapsto> 0, ''sy'' \<mapsto> 0, ''sz'' \<mapsto> 1]\<rparr>"

section \<open>Errors\<close>

text \<open>
  What ends a call other than its return: \<^verbatim>\<open>exit\<close> with its status, and the two
  undefined behaviours the source can run into, an access outside an array and reading
  through a NULL pointer. A function that can end so returns \<open>error + result\<close>. The
  messages handed to \<^verbatim>\<open>reb_warning\<close> and \<^verbatim>\<open>rebx_error\<close> are returned as strings, without
  their final newline; the message of \<^verbatim>\<open>reb_error\<close> before an \<^verbatim>\<open>exit\<close> is not kept.
\<close>

datatype error = Exit int | Out_of_bounds | Null_dereference

section \<open>The spin potential\<close>

text \<open>\<^verbatim>\<open>rebx_calculate_spin_potential\<close>, statement by statement.\<close>

definition rebx_calculate_spin_potential ::
  "reb_particle \<Rightarrow> reb_particle \<Rightarrow> real \<Rightarrow> real \<Rightarrow> real" where
  "rebx_calculate_spin_potential source target G k2 =
    (let ms = p_m source;
         mt = p_m target;
         Rt = p_r target;
         mratio = ms / mt;
         fac = mratio * k2 * Rt * Rt * Rt * Rt * Rt;
         dx = p_x target - p_x source;
         dy = p_y target - p_y source;
         dz = p_z target - p_z source;
         dr2 = dx * dx + dy * dy + dz * dz
     in - 1 / 2 * G * ms * mt / (dr2 * dr2 * dr2) * fac)"

text \<open>
  \<^verbatim>\<open>rebx_spin_potential\<close>: the body of the inner loop, the body of the outer loop (each
  \<^verbatim>\<open>continue\<close> leaves \<open>H\<close> as it is) and the function, which returns \<open>H\<close> and the
  messages it passed to \<^verbatim>\<open>rebx_error\<close>.
\<close>

definition spin_potential_target ::
  "reb_particle list \<Rightarrow> real \<Rightarrow> nat \<Rightarrow> real \<Rightarrow> nat \<Rightarrow> real \<Rightarrow> real" where
  "spin_potential_target particles G i k2 j H =
    (if i = j then H
     else if p_m (particles ! i) = 0 \<or> p_m (particles ! j) = 0 then H
     else H + rebx_calculate_spin_potential (particles ! i) (particles ! j) G k2)"

definition spin_potential_source :: "reb_particle list \<Rightarrow> real \<Rightarrow> int \<Rightarrow> nat \<Rightarrow> real \<Rightarrow> real" where
  "spin_potential_source particles G N_real i H =
    (let source = particles ! i;
         k2 = rebx_get_param (p_ap source) ''k2'';
         sigma = rebx_get_param (p_ap source) ''sigma''
     in if k2 = None \<or> sigma = None \<or> p_r source = 0 \<or> p_m source = 0 then H
        else fold (spin_potential_target particles G i (the k2)) [0..<nat N_real] H)"

definition rebx_spin_potential :: "rebx_extras \<Rightarrow> real \<times> string list" where
  "rebx_spin_potential rebx =
    (case rebx_sim rebx of
       None \<Rightarrow> (0, [''''])
     | Some sim \<Rightarrow>
        (let N_real = sim_N sim - sim_N_var sim;
             particles = sim_particles sim;
             G = sim_G sim;
             H = 0
         in (fold (spin_potential_source particles G N_real) [0..<nat N_real] H, [])))"

text \<open>
  The contribution of one ordered pair as the specification words it,
  \<open>- 1/2 G m_source m_target (m_source / m_target) k2 R_target^5 / r^6\<close>, and the sources
  the specification admits: \<open>k2\<close> and \<open>sigma\<close> set, radius and mass nonzero.
\<close>

definition potential_contribution :: "real \<Rightarrow> real \<Rightarrow> reb_particle \<Rightarrow> reb_particle \<Rightarrow> real" where
  "potential_contribution G k2 source target =
     - (1 / 2) * G * p_m source * p_m target * (p_m source / p_m target) * k2 * p_r target ^ 5
       / distance source target ^ 6"

definition potential_source :: "reb_particle \<Rightarrow> bool" where
  "potential_source p \<longleftrightarrow>
     rebx_get_param (p_ap p) ''k2'' \<noteq> None \<and> rebx_get_param (p_ap p) ''sigma'' \<noteq> None \<and>
     p_r p \<noteq> 0 \<and> p_m p \<noteq> 0"

section \<open>The helpers that derive sigma\<close>

text \<open>
  Modelled from the spec: \<^verbatim>\<open>struct reb_orbit\<close> and \<^verbatim>\<open>reb_tools_particle_to_orbit\<close> belong
  to the host library. Of the orbit only the mean motion \<^verbatim>\<open>n\<close> is read; the function that
  computes the orbit of a body about a primary is a parameter of the model.
\<close>

record reb_orbit =
  orb_n :: real

text \<open>
  Both helpers return the value and the messages passed to \<^verbatim>\<open>rebx_error\<close>; \<^verbatim>\<open>rebx->sim\<close>
  is read without a check.
\<close>

definition rebx_tides_calc_sigma_from_tau ::
  "rebx_extras \<Rightarrow> reb_particle \<Rightarrow> real \<Rightarrow> error + (real \<times> string list)" where
  "rebx_tides_calc_sigma_from_tau rebx body tau =
    (case rebx_sim rebx of
       None \<Rightarrow> Inl Null_dereference
     | Some sim \<Rightarrow>
        (let G = sim_G sim;
             k2 = rebx_get_param (p_ap body) ''k2'';
             r = p_r body
         in if k2 \<noteq> None \<and> r \<noteq> 0 then
              Inr (4 * tau * G / (3 * r * r * r * r * r * (the k2)), [])
            else
              Inr (0, [''Could not set sigma because Love number and/or physical radius was not set for this particle''])))"

definition rebx_tides_calc_sigma_from_Q ::
  "(real \<Rightarrow> reb_particle \<Rightarrow> reb_particle \<Rightarrow> reb_orbit) \<Rightarrow>
   rebx_extras \<Rightarrow> reb_particle \<Rightarrow> reb_particle \<Rightarrow> real \<Rightarrow> error + (real \<times> string list)" where
  "rebx_tides_calc_sigma_from_Q reb_tools_particle_to_orbit rebx body primary Q =
    (case rebx_sim rebx of
       None \<Rightarrow> Inl Null_dereference
     | Some sim \<Rightarrow>
        (let G = sim_G sim;
             orb = reb_tools_particle_to_orbit G body primary;
             r = p_r body;
             n = orb_n orb;
             k2 = rebx_get_param (p_ap body) ''k2''
         in if k2 \<noteq> None \<and> r \<noteq> 0 then
              Inr (2 * G / (3 * Q * r * r * r * r * r * (the k2) * n), [])
            else
              Inr (0, [''Could not calculate sigma because Love number and/or physical radius was not set for this particle''])))"

text \<open>A simulation of two bodies, the first one tagged, to evaluate the functions on.\<close>

definition tidal_body :: reb_particle where
  "tidal_body = body1\<lparr>p_ap := [''k2'' \<mapsto> 1, ''sigma'' \<mapsto> 1]\<rparr>"

definition two_body_sim :: reb_simulation where
  "two_body_sim = \<lparr>sim_G = 1, sim_N = 2, sim_N_var = 0,
                    sim_particles = [tidal_body, body0], sim_odes = []\<rparr>"

definition circular_orbit :: "real \<Rightarrow> reb_particle \<Rightarrow> reb_particle \<Rightarrow> reb_orbit" where
  "circular_orbit G body primary = \<lparr>orb_n = 2\<rparr>"

section \<open>Creation of the spin ODE\<close>

text \<open>
  Modelled from the spec: \<^verbatim>\<open>reb_create_ode\<close> and \<^verbatim>\<open>rebx_set_param_pointer\<close> are defined
  outside \<^verbatim>\<open>tides_spin.c\<close>. Creating an ODE "registers a state vector of given length" with the
  simulation: a new entry at the end of \<^verbatim>\<open>sim->odes\<close>, its hooks and back-reference not
  yet set, its state vector of the declared length (filled with zeros here; the spec does
  not give its contents). The pointer returned is the entry's index. Setting a pointer
  parameter is a create-or-update write, as for scalars.
\<close>

definition reb_create_ode :: "reb_simulation \<Rightarrow> 32 word \<Rightarrow> reb_simulation \<times> nat" where
  "reb_create_ode sim len =
     (sim\<lparr>sim_odes := sim_odes sim @
            [\<lparr>ode_length = len, ode_y = replicate (unat len) 0, ode_ref = Null_pointer,
              ode_derivatives = None, ode_pre_timestep = None, ode_post_timestep = None\<rparr>]\<rparr>,
      length (sim_odes sim))"

definition rebx_set_param_pointer :: "(string \<rightharpoonup> nat) \<Rightarrow> string \<Rightarrow> nat \<Rightarrow> (string \<rightharpoonup> nat)" where
  "rebx_set_param_pointer ap name p = ap(name \<mapsto> p)"

text \<open>\<^verbatim>\<open>rebx_spin_initialize_ode\<close>: the body of the counting loop and the function.\<close>

definition spin_initialize_count :: "reb_particle list \<Rightarrow> nat \<Rightarrow> 32 word \<Rightarrow> 32 word" where
  "spin_initialize_count particles i Nspins =
    (let p = particles ! i;
         moi = rebx_get_param (p_ap p) ''moi'';
         sx = rebx_get_param (p_ap p) ''sx'';
         sy = rebx_get_param (p_ap p) ''sy'';
         sz = rebx_get_param (p_ap p) ''sz''
     in if moi \<noteq> None \<and> sx \<noteq> None \<and> sy \<noteq> None \<and> sz \<noteq> None then Nspins + 1 else Nspins)"

definition rebx_spin_initialize_ode ::
  "rebx_extras \<Rightarrow> rebx_force \<Rightarrow> error + (rebx_extras \<times> rebx_force)" where
  "rebx_spin_initialize_ode rebx effect =
    (case rebx_sim rebx of
       None \<Rightarrow> Inl Null_dereference
     | Some sim \<Rightarrow>
        (let N_real = sim_N sim - sim_N_var sim;
             Nspins = fold (spin_initialize_count (sim_particles sim)) [0..<nat N_real] 0
         in if Nspins > 0 then
              (let (sim, spin_ode) = reb_create_ode sim (Nspins * 3);
                   sim = sim\<lparr>sim_odes := (sim_odes sim)[spin_ode := (sim_odes sim ! spin_ode)
                           \<lparr>ode_ref := Simulation_pointer,
                            ode_derivatives := Some Spin_derivatives,
                            ode_pre_timestep := Some Spin_sync_pre,
                            ode_post_timestep := Some Spin_sync_post\<rparr>]\<rparr>
               in Inr (rebx\<lparr>rebx_sim := Some sim\<rparr>,
                       effect\<lparr>force_ap := rebx_set_param_pointer (force_ap effect) ''ode'' spin_ode\<rparr>))
            else Inr (rebx, effect)))"

text \<open>
  The bodies ODE creation counts: \<open>moi\<close>, \<open>sx\<close>, \<open>sy\<close> and \<open>sz\<close> all set, among the real
  bodies. The registered ODE as the claim describes it, for \<open>n\<close> such bodies.
\<close>

definition spin_tracked :: "reb_particle \<Rightarrow> bool" where
  "spin_tracked p \<longleftrightarrow>
     rebx_get_param (p_ap p) ''moi'' \<noteq> None \<and> rebx_get_param (p_ap p) ''sx'' \<noteq> None \<and>
     rebx_get_param (p_ap p) ''sy'' \<noteq> None \<and> rebx_get_param (p_ap p) ''sz'' \<noteq> None"

definition count_real :: "(reb_particle \<Rightarrow> bool) \<Rightarrow> reb_simulation \<Rightarrow> nat" where
  "count_real P sim =
     length (filter (\<lambda>i. P (sim_particles sim ! i)) [0..<nat (sim_N sim - sim_N_var sim)])"

definition registered_spin_ode :: "nat \<Rightarrow> reb_ode" where
  "registered_spin_ode n =
     \<lparr>ode_length = of_nat (3 * n), ode_y = replicate (3 * n) 0, ode_ref = Simulation_pointer,
      ode_derivatives = Some Spin_derivatives, ode_pre_timestep = Some Spin_sync_pre,
      ode_post_timestep = Some Spin_sync_post\<rparr>"

text \<open>A body with a moment of inertia and a spin but no Love number.\<close>

definition rigid_body :: reb_particle where
  "rigid_body = body1\<lparr>p_ap := [''moi'' \<mapsto> 1, ''sx'' \<mapsto> 0, ''sy'' \<mapsto> 0, ''sz'' \<mapsto> 1]\<rparr>"

definition rigid_sim :: reb_simulation where
  "rigid_sim = \<lparr>sim_G = 1, sim_N = 2, sim_N_var = 0,
                 sim_particles = [rigid_body, body0], sim_odes = []\<rparr>"

section \<open>Loops that can end the call\<close>

text \<open>
  A \<^verbatim>\<open>for\<close> loop over the indices \<open>js\<close> whose body either ends the call with an error
  or hands the loop state on.
\<close>

fun for_each :: "(nat \<Rightarrow> 's \<Rightarrow> error + 's) \<Rightarrow> nat list \<Rightarrow> 's \<Rightarrow> error + 's" where
  "for_each body [] s = Inr s"
| "for_each body (j # js) s =
     (case body j s of Inl e \<Rightarrow> Inl e | Inr s' \<Rightarrow> for_each body js s')"

section \<open>The spin state synchronizer\<close>

text \<open>
  \<^verbatim>\<open>rebx_spin_sync_pre\<close>. The loop state is the counter \<^verbatim>\<open>Nspins\<close> and the state vector
  \<^verbatim>\<open>ode->y\<close>. The three assignments of the body read through \<^verbatim>\<open>sx\<close>, \<^verbatim>\<open>sy\<close>, \<^verbatim>\<open>sz\<close>
  without a NULL check and write at \<^verbatim>\<open>3*Nspins\<close>, \<^verbatim>\<open>3*Nspins+1\<close>, \<^verbatim>\<open>3*Nspins+2\<close> without a
  bounds check; the length is compared after the loop. The simulation is what \<^verbatim>\<open>ode->ref\<close>
  points to. The parameter \<^verbatim>\<open>y0\<close> is not used.
\<close>

definition spin_sync_pre_body ::
  "reb_particle list \<Rightarrow> nat \<Rightarrow> 32 word \<times> real list \<Rightarrow> error + (32 word \<times> real list)" where
  "spin_sync_pre_body particles i s =
    (let Nspins = fst s;
         y = snd s;
         p = particles ! i;
         k2 = rebx_get_param (p_ap p) ''k2''
     in if k2 \<noteq> None then
          (let sx = rebx_get_param (p_ap p) ''sx'';
               sy = rebx_get_param (p_ap p) ''sy'';
               sz = rebx_get_param (p_ap p) ''sz''
           in if sx = None then Inl Null_dereference
              else if length y \<le> unat (3 * Nspins) then Inl Out_of_bounds
              else if sy = None then Inl Null_dereference
              else if length y \<le> unat (3 * Nspins + 1) then Inl Out_of_bounds
              else if sz = None then Inl Null_dereference
              else if length y \<le> unat (3 * Nspins + 2) then Inl Out_of_bounds
              else Inr (Nspins + 1,
                        y[unat (3 * Nspins) := the sx,
                          unat (3 * Nspins + 1) := the sy,
                          unat (3 * Nspins + 2) := the sz]))
        else Inr (Nspins, y))"

definition spin_sync_pre_scan :: "reb_simulation \<Rightarrow> reb_ode \<Rightarrow> error + (32 word \<times> real list)" where
  "spin_sync_pre_scan sim ode =
     for_each (spin_sync_pre_body (sim_particles sim)) [0..<nat (sim_N sim - sim_N_var sim)]
       (0, ode_y ode)"

definition rebx_spin_sync_pre :: "reb_simulation \<Rightarrow> reb_ode \<Rightarrow> real list \<Rightarrow> error + reb_ode" where
  "rebx_spin_sync_pre sim ode y0 =
    (case ode_ref ode of
       Null_pointer \<Rightarrow> Inl Null_dereference
     | Simulation_pointer \<Rightarrow>
        (case spin_sync_pre_scan sim ode of
           Inl e \<Rightarrow> Inl e
         | Inr s \<Rightarrow>
            if ode_length ode \<noteq> fst s * 3 then Inl (Exit 1)
            else Inr (ode\<lparr>ode_y := snd s\<rparr>)))"

text \<open>
  \<^verbatim>\<open>rebx_spin_sync_post\<close>. The loop state is \<^verbatim>\<open>Nspins\<close> and the particle array, whose
  tags \<^verbatim>\<open>sx\<close>, \<^verbatim>\<open>sy\<close>, \<^verbatim>\<open>sz\<close> the body sets from \<^verbatim>\<open>y0\<close>, read without a bounds check.
  The length is compared after the loop, and the mismatch ends in \<^verbatim>\<open>exit(0)\<close>.
\<close>

definition spin_sync_post_body ::
  "real list \<Rightarrow> nat \<Rightarrow> 32 word \<times> reb_particle list \<Rightarrow> error + (32 word \<times> reb_particle list)" where
  "spin_sync_post_body y0 i s =
    (let Nspins = fst s;
         particles = snd s;
         p = particles ! i;
         k2 = rebx_get_param (p_ap p) ''k2''
     in if k2 \<noteq> None then
          (if length y0 \<le> unat (3 * Nspins) then Inl Out_of_bounds
           else if length y0 \<le> unat (3 * Nspins + 1) then Inl Out_of_bounds
           else if length y0 \<le> unat (3 * Nspins + 2) then Inl Out_of_bounds
           else
             (let ap = rebx_set_param_double (p_ap p) ''sx'' (y0 ! unat (3 * Nspins));
                  ap = rebx_set_param_double ap ''sy'' (y0 ! unat (3 * Nspins + 1));
                  ap = rebx_set_param_double ap ''sz'' (y0 ! unat (3 * Nspins + 2))
              in Inr (Nspins + 1, particles[i := p\<lparr>p_ap := ap\<rparr>])))
        else Inr (Nspins, particles))"

definition spin_sync_post_scan ::
  "reb_simulation \<Rightarrow> real list \<Rightarrow> error + (32 word \<times> reb_particle list)" where
  "spin_sync_post_scan sim y0 =
     for_each (spin_sync_post_body y0) [0..<nat (sim_N sim - sim_N_var sim)]
       (0, sim_particles sim)"

definition rebx_spin_sync_post ::
  "reb_simulation \<Rightarrow> reb_ode \<Rightarrow> real list \<Rightarrow> error + reb_simulation" where
  "rebx_spin_sync_post sim ode y0 =
    (case ode_ref ode of
       Null_pointer \<Rightarrow> Inl Null_dereference
     | Simulation_pointer \<Rightarrow>
        (case spin_sync_post_scan sim y0 of
           Inl e \<Rightarrow> Inl e
         | Inr s \<Rightarrow>
            if ode_length ode \<noteq> fst s * 3 then Inl (Exit 0)
            else Inr (sim\<lparr>sim_particles := snd s\<rparr>)))"

text \<open>The bodies the synchronizer counts: \<open>k2\<close> set.\<close>

definition k2_set :: "reb_particle \<Rightarrow> bool" where
  "k2_set p \<longleftrightarrow> rebx_get_param (p_ap p) ''k2'' \<noteq> None"

text \<open>
  A simulation of two bodies with a moment of inertia and a spin, only the first with a
  Love number, and two ODEs for it, of length 3 and of length 6.
\<close>

definition full_body :: reb_particle where
  "full_body = body1\<lparr>p_ap := [''k2'' \<mapsto> 1, ''moi'' \<mapsto> 1, ''sx'' \<mapsto> 0, ''sy'' \<mapsto> 0, ''sz'' \<mapsto> 1]\<rparr>"

definition mixed_sim :: reb_simulation where
  "mixed_sim = \<lparr>sim_G = 1, sim_N = 2, sim_N_var = 0,
                 sim_particles = [full_body, rigid_body\<lparr>p_x := 0\<rparr>], sim_odes = []\<rparr>"

definition tracked_sim :: reb_simulation where
  "tracked_sim = \<lparr>sim_G = 1, sim_N = 2, sim_N_var = 0,
                   sim_particles = [full_body, body0], sim_odes = []\<rparr>"

definition spin_tags :: "reb_particle \<Rightarrow> real option \<times> real option \<times> real option" where
  "spin_tags p = (rebx_get_param (p_ap p) ''sx'', rebx_get_param (p_ap p) ''sy'',
                  rebx_get_param (p_ap p) ''sz'')"

definition spin_ode_of_length :: "nat \<Rightarrow> reb_ode" where
  "spin_ode_of_length n =
     \<lparr>ode_length = of_nat n, ode_y = replicate n 0, ode_ref = Simulation_pointer,
      ode_derivatives = Some Spin_derivatives, ode_pre_timestep = Some Spin_sync_pre,
      ode_post_timestep = Some Spin_sync_post\<rparr>"

section \<open>The spin derivative function\<close>

text \<open>
  \<^verbatim>\<open>rebx_spin_derivatives\<close>: the body of the inner loop for the other body \<open>j\<close>, the body
  of the outer loop for body \<open>i\<close>, and the function. The loop state is \<^verbatim>\<open>Nspins\<close> and the
  output vector \<^verbatim>\<open>yDot\<close>; \<^verbatim>\<open>yDot\<close> is written and \<^verbatim>\<open>y\<close> is read at \<^verbatim>\<open>3*Nspins\<close>,
  \<^verbatim>\<open>3*Nspins+1\<close>, \<^verbatim>\<open>3*Nspins+2\<close> without a bounds check, and the length is compared after
  the loop. The source's \<^verbatim>\<open>pi\<close> and \<^verbatim>\<open>pj\<close> are \<open>p_i\<close> and \<open>p_j\<close> here. The time \<open>t\<close> is a
  parameter that nothing reads.
\<close>

definition spin_derivatives_target ::
  "reb_simulation \<Rightarrow> nat \<Rightarrow> real \<Rightarrow> real \<Rightarrow> real \<Rightarrow> real \<Rightarrow> real \<Rightarrow> real \<Rightarrow> 32 word \<Rightarrow> nat
     \<Rightarrow> real list \<Rightarrow> real list" where
  "spin_derivatives_target sim i k2 sigma_in moi sx sy sz Nspins j yDot =
    (if i \<noteq> j then
       (let p_i = sim_particles sim ! i;
            p_j = sim_particles sim ! j;
            dx = p_x p_i - p_x p_j;
            dy = p_y p_i - p_y p_j;
            dz = p_z p_i - p_z p_j;
            mi = p_m p_i;
            mj = p_m p_j;
            mu_ij = (mi * mj) / (mi + mj);
            tf = rebx_calculate_spin_orbit_accelerations p_i p_j (sim_G sim) k2 sigma_in sx sy sz;
            yDot = yDot[unat (3 * Nspins) := yDot ! unat (3 * Nspins)
                          + ((dy * vec_z tf - dz * vec_y tf) * (- mu_ij / moi))];
            yDot = yDot[unat (3 * Nspins + 1) := yDot ! unat (3 * Nspins + 1)
                          + ((dz * vec_x tf - dx * vec_z tf) * (- mu_ij / moi))];
            yDot = yDot[unat (3 * Nspins + 2) := yDot ! unat (3 * Nspins + 2)
                          + ((dx * vec_y tf - dy * vec_x tf) * (- mu_ij / moi))]
        in yDot)
     else yDot)"

definition spin_derivatives_body ::
  "reb_simulation \<Rightarrow> real list \<Rightarrow> nat \<Rightarrow> 32 word \<times> real list \<Rightarrow> error + (32 word \<times> real list)" where
  "spin_derivatives_body sim y i s =
    (let Nspins = fst s;
         yDot = snd s;
         N_real = sim_N sim - sim_N_var sim;
         p_i = sim_particles sim ! i;
         k2 = rebx_get_param (p_ap p_i) ''k2'';
         sigma = rebx_get_param (p_ap p_i) ''sigma'';
         moi = rebx_get_param (p_ap p_i) ''moi''
     in if k2 \<noteq> None \<and> moi \<noteq> None then
          (let sigma_in = (if sigma \<noteq> None then the sigma else 0)
           in if length yDot \<le> unat (3 * Nspins) then Inl Out_of_bounds
              else if length yDot \<le> unat (3 * Nspins + 1) then Inl Out_of_bounds
              else if length yDot \<le> unat (3 * Nspins + 2) then Inl Out_of_bounds
              else if length y \<le> unat (3 * Nspins) then Inl Out_of_bounds
              else if length y \<le> unat (3 * Nspins + 1) then Inl Out_of_bounds
              else if length y \<le> unat (3 * Nspins + 2) then Inl Out_of_bounds
              else
                (let yDot = yDot[unat (3 * Nspins) := 0,
                                 unat (3 * Nspins + 1) := 0,
                                 unat (3 * Nspins + 2) := 0];
                     sx = y ! unat (3 * Nspins);
                     sy = y ! unat (3 * Nspins + 1);
                     sz = y ! unat (3 * Nspins + 2);
                     yDot = fold (spin_derivatives_target sim i (the k2) sigma_in (the moi)
                                    sx sy sz Nspins) [0..<nat N_real] yDot
                 in Inr (Nspins + 1, yDot)))
        else Inr (Nspins, yDot))"

definition rebx_spin_derivatives ::
  "reb_simulation \<Rightarrow> reb_ode \<Rightarrow> real list \<Rightarrow> real list \<Rightarrow> real \<Rightarrow> error + real list" where
  "rebx_spin_derivatives sim ode yDot y t =
    (case ode_ref ode of
       Null_pointer \<Rightarrow> Inl Null_dereference
     | Simulation_pointer \<Rightarrow>
        (case for_each (spin_derivatives_body sim y) [0..<nat (sim_N sim - sim_N_var sim)] (0, yDot) of
           Inl e \<Rightarrow> Inl e
         | Inr s \<Rightarrow>
            if ode_length ode \<noteq> fst s * 3 then Inl (Exit 1)
            else Inr (snd s)))"

text \<open>
  The words of the specification. A body is eligible when \<open>k2\<close> and \<open>moi\<close> are set; its
  slot is its rank among the eligible bodies in the order of the particle array; the
  torque of body \<open>j\<close> on body \<open>i\<close> is \<open>(r_i - r_j) \<times> F_ij\<close> scaled by \<open>- \<mu>_ij / moi_i\<close>, with
  \<open>F_ij\<close> the kernel force for source \<open>i\<close>, the source's \<open>k2\<close>, its \<open>sigma\<close> or 0, and the
  spin in the three entries of \<open>y\<close> at the slot.
\<close>

definition spin_evolving :: "reb_particle \<Rightarrow> bool" where
  "spin_evolving p \<longleftrightarrow>
     rebx_get_param (p_ap p) ''k2'' \<noteq> None \<and> rebx_get_param (p_ap p) ''moi'' \<noteq> None"

definition spin_slot :: "reb_simulation \<Rightarrow> nat \<Rightarrow> nat" where
  "spin_slot sim i = length (filter (\<lambda>k. spin_evolving (sim_particles sim ! k)) [0..<i])"

definition pair_torque ::
  "real \<Rightarrow> real \<Rightarrow> real \<Rightarrow> real \<Rightarrow> reb_vec3d \<Rightarrow> reb_particle \<Rightarrow> reb_particle \<Rightarrow> reb_vec3d" where
  "pair_torque G k2 sigma moi Omega p_i p_j =
     vscale (- reduced_mass p_i p_j / moi)
       (vcross (separation p_i p_j)
          (rebx_calculate_spin_orbit_accelerations p_i p_j G k2 sigma
             (vec_x Omega) (vec_y Omega) (vec_z Omega)))"

definition spin_torque :: "reb_simulation \<Rightarrow> real list \<Rightarrow> nat \<Rightarrow> nat \<Rightarrow> reb_vec3d" where
  "spin_torque sim y i j =
    (let p_i = sim_particles sim ! i;
         slot = 3 * spin_slot sim i
     in pair_torque (sim_G sim)
          (the (rebx_get_param (p_ap p_i) ''k2''))
          (case rebx_get_param (p_ap p_i) ''sigma'' of None \<Rightarrow> 0 | Some s \<Rightarrow> s)
          (the (rebx_get_param (p_ap p_i) ''moi''))
          (vec3 (y ! slot) (y ! (slot + 1)) (y ! (slot + 2)))
          p_i (sim_particles sim ! j))"

text \<open>
  A simulation of two bodies with a Love number and a spin, only the first with a moment
  of inertia: the configuration the header of the source documents for a body whose spin
  is to stay stationary.
\<close>

definition stationary_spin_sim :: reb_simulation where
  "stationary_spin_sim = \<lparr>sim_G = 1, sim_N = 2, sim_N_var = 0,
                           sim_particles = [full_body, spinning_body\<lparr>p_x := 0\<rparr>], sim_odes = []\<rparr>"

section \<open>Properties of the kernel\<close>

lemma distance_sq:
  "(distance source target)\<^sup>2 =
     (p_x source - p_x target) * (p_x source - p_x target)
   + (p_y source - p_y target) * (p_y source - p_y target)
   + (p_z source - p_z target) * (p_z source - p_z target)"
  by (simp add: distance_def separation_def position_def vsub_def vdot_def vec3_def)

lemma quad_component:
  fixes q :: real
  assumes od: "od = sx * dx + sy * dy + sz * dz"
  shows "q * ((5 * od * od / (2 * (d * d * d * d * d * d * d)) - os / (2 * (d * d * d * d * d))
               - 6 * G * mt / (d * d * d * d * d * d * d * d)) * c - (od / (d * d * d * d * d)) * s)
       = (q * (5 * (sx * dx + sy * dy + sz * dz)\<^sup>2 / (2 * d ^ 7) - os / (2 * d ^ 5)
               - 6 * G * mt / d ^ 8)) * c
         + (- (q * ((sx * dx + sy * dy + sz * dz) / d ^ 5))) * s"
proof -
  have p8: "d * d * d * d * d * d * d * d = d ^ 8"
    by (simp add: power_numeral_reduce mult.assoc)
  have p7: "d * d * d * d * d * d * d = d ^ 7"
    by (simp add: power_numeral_reduce mult.assoc)
  have p5: "d * d * d * d * d = d ^ 5"
    by (simp add: power_numeral_reduce mult.assoc)
  have sq: "5 * od * od = 5 * od\<^sup>2"
    by (simp add: power2_eq_square)
  have "q * ((5 * od * od / (2 * (d * d * d * d * d * d * d)) - os / (2 * (d * d * d * d * d))
               - 6 * G * mt / (d * d * d * d * d * d * d * d)) * c - (od / (d * d * d * d * d)) * s)
       = (q * (5 * od\<^sup>2 / (2 * d ^ 7) - os / (2 * d ^ 5) - 6 * G * mt / d ^ 8)) * c
         + (- (q * (od / d ^ 5))) * s"
    apply (simp only: p8)
    apply (simp only: p7)
    apply (simp only: p5 sq)
    apply (simp add: algebra_simps)
    done
  then show ?thesis
    unfolding od .
qed

lemma diss_prefactor:
  fixes sigma :: real
  assumes "d\<^sup>2 = d2"
  shows "(- 9 * sigma * mt * mt * (k2 * (R * R * R * R * R)) * (k2 * (R * R * R * R * R)))
           / (2 * mu * (d2 * d2 * d2 * d2 * d2))
       = - 9 * sigma * mt\<^sup>2 * (k2 * R ^ 5)\<^sup>2 / (2 * mu * d ^ 10)"
proof -
  have "d ^ 10 = (d\<^sup>2) ^ 5"
    by (simp flip: power_mult)
  also have "\<dots> = d2 * d2 * d2 * d2 * d2"
    by (simp only: assms) (simp add: power_numeral_reduce mult.assoc)
  finally have a: "d ^ 10 = d2 * d2 * d2 * d2 * d2" .
  have b: "R * R * R * R * R = R ^ 5"
    by (simp add: power_numeral_reduce mult.assoc)
  show ?thesis
    by (simp only: a b) (simp add: power2_eq_square)
qed

text \<open>The kernel written out on the components of separation and relative velocity.\<close>

lemma kernel_components:
  fixes source target :: reb_particle and G k2 sigma sx sy sz :: real
  assumes k2: "k2 \<noteq> 0"
  defines "dx \<equiv> p_x source - p_x target"
    and "dy \<equiv> p_y source - p_y target"
    and "dz \<equiv> p_z source - p_z target"
    and "dvx \<equiv> p_vx source - p_vx target"
    and "dvy \<equiv> p_vy source - p_vy target"
    and "dvz \<equiv> p_vz source - p_vz target"
  defines "d2 \<equiv> dx * dx + dy * dy + dz * dz"
  defines "d \<equiv> distance source target"
  defines "q \<equiv> p_m target * (k2 * p_r source ^ 5) / reduced_mass source target"
  defines "od \<equiv> sx * dx + sy * dy + sz * dz"
  defines "w \<equiv> 5 * od\<^sup>2 / (2 * d ^ 7) - (sx * sx + sy * sy + sz * sz) / (2 * d ^ 5)
                 - 6 * G * p_m target / d ^ 8"
  defines "pre \<equiv> - 9 * sigma * (p_m target)\<^sup>2 * (k2 * p_r source ^ 5)\<^sup>2
                     / (2 * reduced_mass source target * d ^ 10)"
  defines "ddv \<equiv> dx * dvx + dy * dvy + dz * dvz"
  defines "cx \<equiv> (dy * dvz - dz * dvy) - d2 * sx"
    and "cy \<equiv> (dz * dvx - dx * dvz) - d2 * sy"
    and "cz \<equiv> (dx * dvy - dy * dvx) - d2 * sz"
  shows "rebx_calculate_spin_orbit_accelerations source target G k2 sigma sx sy sz =
     (if sigma \<noteq> 0 then
        vec3 ((q * w) * dx + (- (q * (od / d ^ 5))) * sx + pre * (3 * ddv * dx + (cy * dz - cz * dy)))
             ((q * w) * dy + (- (q * (od / d ^ 5))) * sy + pre * (3 * ddv * dy + (cz * dx - cx * dz)))
             ((q * w) * dz + (- (q * (od / d ^ 5))) * sz + pre * (3 * ddv * dz + (cx * dy - cy * dx)))
      else
        vec3 ((q * w) * dx + (- (q * (od / d ^ 5))) * sx)
             ((q * w) * dy + (- (q * (od / d ^ 5))) * sy)
             ((q * w) * dz + (- (q * (od / d ^ 5))) * sz))"
proof -
  have "0 \<le> d2"
    by (simp add: d2_def)
  then have dd: "d\<^sup>2 = d2"
    by (simp add: d_def distance_sq d2_def dx_def dy_def dz_def)
  have ds: "d = sqrt d2"
    by (simp add: d_def distance_def separation_def position_def vsub_def vdot_def vec3_def
        d2_def dx_def dy_def dz_def)
  have R5: "p_r source * p_r source * p_r source * p_r source * p_r source = p_r source ^ 5"
    by (simp add: power_numeral_reduce mult.assoc)
  note qc = quad_component [where q = q and d = d and od = od and sx = sx and sy = sy and sz = sz
      and dx = dx and dy = dy and dz = dz and G = G and mt = "p_m target"
      and os = "sx * sx + sy * sy + sz * sz", OF od_def [THEN meta_eq_to_obj_eq]]
  note dp = diss_prefactor [OF dd, of sigma "p_m target" k2 "p_r source" "reduced_mass source target"]
  have unf: "rebx_calculate_spin_orbit_accelerations source target G k2 sigma sx sy sz =
     (if sigma \<noteq> 0 then
        vec3 (q * ((5 * od * od / (2 * (d * d * d * d * d * d * d))
                    - (sx * sx + sy * sy + sz * sz) / (2 * (d * d * d * d * d))
                    - 6 * G * p_m target / (d * d * d * d * d * d * d * d)) * dx
                   - (od / (d * d * d * d * d)) * sx)
              + (- 9 * sigma * p_m target * p_m target
                   * (k2 * (p_r source * p_r source * p_r source * p_r source * p_r source))
                   * (k2 * (p_r source * p_r source * p_r source * p_r source * p_r source)))
                 / (2 * reduced_mass source target * (d2 * d2 * d2 * d2 * d2))
                * (3 * ddv * dx + (cy * dz - cz * dy)))
             (q * ((5 * od * od / (2 * (d * d * d * d * d * d * d))
                    - (sx * sx + sy * sy + sz * sz) / (2 * (d * d * d * d * d))
                    - 6 * G * p_m target / (d * d * d * d * d * d * d * d)) * dy
                   - (od / (d * d * d * d * d)) * sy)
              + (- 9 * sigma * p_m target * p_m target
                   * (k2 * (p_r source * p_r source * p_r source * p_r source * p_r source))
                   * (k2 * (p_r source * p_r source * p_r source * p_r source * p_r source)))
                 / (2 * reduced_mass source target * (d2 * d2 * d2 * d2 * d2))
                * (3 * ddv * dy + (cz * dx - cx * dz)))
             (q * ((5 * od * od / (2 * (d * d * d * d * d * d * d))
                    - (sx * sx + sy * sy + sz * sz) / (2 * (d * d * d * d * d))
                    - 6 * G * p_m target / (d * d * d * d * d * d * d * d)) * dz
                   - (od / (d * d * d * d * d)) * sz)
              + (- 9 * sigma * p_m target * p_m target
                   * (k2 * (p_r source * p_r source * p_r source * p_r source * p_r source))
                   * (k2 * (p_r source * p_r source * p_r source * p_r source * p_r source)))
                 / (2 * reduced_mass source target * (d2 * d2 * d2 * d2 * d2))
                * (3 * ddv * dz + (cx * dy - cy * dx)))
      else
        vec3 (q * ((5 * od * od / (2 * (d * d * d * d * d * d * d))
                    - (sx * sx + sy * sy + sz * sz) / (2 * (d * d * d * d * d))
                    - 6 * G * p_m target / (d * d * d * d * d * d * d * d)) * dx
                   - (od / (d * d * d * d * d)) * sx))
             (q * ((5 * od * od / (2 * (d * d * d * d * d * d * d))
                    - (sx * sx + sy * sy + sz * sz) / (2 * (d * d * d * d * d))
                    - 6 * G * p_m target / (d * d * d * d * d * d * d * d)) * dy
                   - (od / (d * d * d * d * d)) * sy))
             (q * ((5 * od * od / (2 * (d * d * d * d * d * d * d))
                    - (sx * sx + sy * sy + sz * sz) / (2 * (d * d * d * d * d))
                    - 6 * G * p_m target / (d * d * d * d * d * d * d * d)) * dz
                   - (od / (d * d * d * d * d)) * sz)))"
    unfolding rebx_calculate_spin_orbit_accelerations_def Let_def vec3_def ds q_def R5 [symmetric]
      reduced_mass_def od_def ddv_def cx_def cy_def cz_def d2_def dx_def dy_def dz_def
      dvx_def dvy_def dvz_def
    using k2 by (simp only: if_True if_False not_False_eq_True reb_vec3d.simps simp_thms)
  show ?thesis
    unfolding unf qc dp
    by (simp only: w_def [symmetric] od_def [symmetric] pre_def [symmetric])
qed

lemma kernel_decomp:
  assumes k2: "k2 \<noteq> 0"
  shows "rebx_calculate_spin_orbit_accelerations source target G k2 sigma sx sy sz =
     vadd (quadrupole_term source target G k2 (vec3 sx sy sz))
          (if sigma \<noteq> 0 then dissipative_term source target k2 sigma (vec3 sx sy sz)
           else vec3 0 0 0)"
proof -
  have sep: "separation source target
      = vec3 (p_x source - p_x target) (p_y source - p_y target) (p_z source - p_z target)"
    by (simp add: separation_def position_def vsub_def vec3_def)
  have rel: "relative_velocity source target
      = vec3 (p_vx source - p_vx target) (p_vy source - p_vy target) (p_vz source - p_vz target)"
    by (simp add: relative_velocity_def velocity_def vsub_def vec3_def)
  have sel: "vec_x (vec3 a b c) = a" "vec_y (vec3 a b c) = b" "vec_z (vec3 a b c) = c" for a b c
    by (simp_all add: vec3_def)
  show ?thesis
  proof (cases "sigma = 0")
    case True
    show ?thesis
      unfolding kernel_components [OF k2] quadrupole_term_def Let_def sep distance_sq
      unfolding vadd_def vscale_def vdot_def sel
      by (simp add: True sel)
  next
    case False
    show ?thesis
      unfolding kernel_components [OF k2] quadrupole_term_def dissipative_term_def Let_def
        sep rel distance_sq
      unfolding vadd_def vscale_def vcross_def vsub_def vdot_def sel
      by (simp add: False sel)
  qed
qed

text \<open>
  C5. With \<open>k2 = 0\<close> the kernel returns the zero vector, whatever the two bodies, \<open>G\<close>,
  \<open>sigma\<close> and the spin are.
\<close>

theorem kernel_k2_zero:
  "rebx_calculate_spin_orbit_accelerations source target G 0 sigma sx sy sz
     = \<lparr>vec_x = 0, vec_y = 0, vec_z = 0\<rparr>"
  by (simp add: rebx_calculate_spin_orbit_accelerations_def)

text \<open>
  C1. For two bodies of nonzero mass and \<open>k2 \<noteq> 0\<close> the kernel returns the quadrupole
  term plus, when \<open>sigma \<noteq> 0\<close>, the dissipative term, both as the specification states
  them: separation and relative velocity are source minus target, \<open>h = r \<times> v\<close>, and the
  powers of the distance are those of \<open>r = sqrt (r \<cdot> r)\<close>.
\<close>

theorem kernel_force_law:
  assumes "p_m source \<noteq> 0" and "p_m target \<noteq> 0" and "k2 \<noteq> 0"
  shows "rebx_calculate_spin_orbit_accelerations source target G k2 sigma sx sy sz =
     vadd (quadrupole_term source target G k2 (vec3 sx sy sz))
          (if sigma \<noteq> 0 then dissipative_term source target k2 sigma (vec3 sx sy sz)
           else vec3 0 0 0)"
  using assms(3) by (rule kernel_decomp)

theorem kernel_force_law_witness:
  "p_m body1_reversed \<noteq> 0 \<and> p_m body0 \<noteq> 0 \<and> (1::real) \<noteq> 0 \<and>
   rebx_calculate_spin_orbit_accelerations body1_reversed body0 1 1 1 0 0 1 =
     vadd (quadrupole_term body1_reversed body0 1 1 (vec3 0 0 1))
          (dissipative_term body1_reversed body0 1 1 (vec3 0 0 1)) \<and>
   rebx_calculate_spin_orbit_accelerations body1_reversed body0 1 1 1 0 0 1 = vec3 (- 13) 18 0"
proof -
  have m: "p_m body1_reversed \<noteq> 0" "p_m body0 \<noteq> 0"
    by (simp_all add: body1_reversed_def body0_def)
  have v: "rebx_calculate_spin_orbit_accelerations body1_reversed body0 1 1 1 0 0 1 = vec3 (- 13) 18 0"
    by (simp add: rebx_calculate_spin_orbit_accelerations_def body1_reversed_def body0_def vec3_def)
  from kernel_force_law [OF m, of 1 1 1 0 0 1] m v show ?thesis by simp
qed

section \<open>Reversal of the relative velocity\<close>

lemma vec3_sel [simp]:
  "vec_x (vec3 a b c) = a" "vec_y (vec3 a b c) = b" "vec_z (vec3 a b c) = c"
  by (simp_all add: vec3_def)

lemma vec3_eq_iff [simp]: "vec3 a b c = vec3 a' b' c' \<longleftrightarrow> a = a' \<and> b = b' \<and> c = c'"
  by (simp add: vec3_def)

lemma vsub_vadd_cancel: "vsub (vadd q v) (vadd q (vec3 0 0 0)) = vec3 (vec_x v) (vec_y v) (vec_z v)"
  by (simp add: vsub_def vadd_def)

lemma vec3_eta: "vec3 (vec_x v) (vec_y v) (vec_z v) = v"
  by (simp add: vec3_def)

lemma dissipative_contribution_eq:
  assumes "k2 \<noteq> 0" and "sigma \<noteq> 0"
  shows "dissipative_contribution source target G k2 sigma sx sy sz
           = dissipative_term source target k2 sigma (vec3 sx sy sz)"
  unfolding dissipative_contribution_def kernel_decomp [OF assms(1)]
  using assms(2) by (simp add: vsub_vadd_cancel vec3_eta)

lemma diss_core_flip:
  "vadd (vscale P (vadd (vscale (3 * vdot r (vscale (- 1) v)) r)
                        (vcross (vsub (vcross r (vscale (- 1) v)) (vscale c w)) r)))
        (vscale P (vadd (vscale (3 * vdot r v) r)
                        (vcross (vsub (vcross r v) (vscale c w)) r)))
   = vscale (2 * P) (vcross (vscale (- c) w) r)"
  by (simp add: vadd_def vscale_def vcross_def vsub_def vdot_def algebra_simps)

lemma velocity_reversed_facts:
  assumes "velocity_reversed source target source' target'"
  shows "separation source' target' = separation source target"
    and "distance source' target' = distance source target"
    and "reduced_mass source' target' = reduced_mass source target"
    and "relative_velocity source' target' = vscale (- 1) (relative_velocity source target)"
    and "p_m target' = p_m target" and "p_r source' = p_r source"
  using assms by (simp_all add: velocity_reversed_def separation_def distance_def reduced_mass_def)

text \<open>
  C6, as the code has it. For \<open>k2 \<noteq> 0\<close> and \<open>sigma \<noteq> 0\<close>, reversing the relative
  velocity leaves the quadrupole contribution unchanged. The dissipative contribution is
  \<open>P (3 (r \<cdot> v) r + (r \<times> v) \<times> r) + P ((- r^2 \<Omega>) \<times> r)\<close> with the prefactor \<open>P\<close>:
  its first part changes sign and its second part does not depend on the velocity, so the
  two dissipative contributions add up to \<open>2 P ((- r^2 \<Omega>) \<times> r)\<close>, and the sign flips
  exactly when \<open>\<Omega> \<times> r = 0\<close>.
\<close>

theorem velocity_reversal:
  assumes "k2 \<noteq> 0" and "sigma \<noteq> 0" and "velocity_reversed source target source' target'"
  shows "quadrupole_contribution source' target' G k2 sx sy sz
           = quadrupole_contribution source target G k2 sx sy sz
       \<and> vadd (dissipative_contribution source' target' G k2 sigma sx sy sz)
              (dissipative_contribution source target G k2 sigma sx sy sz)
           = vscale (2 * (- 9 * sigma * (p_m target)\<^sup>2 * (k2 * p_r source ^ 5)\<^sup>2
                           / (2 * reduced_mass source target * distance source target ^ 10)))
                    (vcross (vscale (- ((distance source target)\<^sup>2)) (vec3 sx sy sz))
                            (separation source target))
       \<and> (vcross (vec3 sx sy sz) (separation source target) = vec3 0 0 0 \<longrightarrow>
            dissipative_contribution source' target' G k2 sigma sx sy sz
              = vscale (- 1) (dissipative_contribution source target G k2 sigma sx sy sz))"
proof -
  note f = velocity_reversed_facts [OF assms(3)]
  have q: "quadrupole_contribution source' target' G k2 sx sy sz
           = quadrupole_contribution source target G k2 sx sy sz"
    unfolding quadrupole_contribution_def kernel_decomp [OF assms(1)] quadrupole_term_def f
    by simp
  have d: "vadd (dissipative_contribution source' target' G k2 sigma sx sy sz)
              (dissipative_contribution source target G k2 sigma sx sy sz)
           = vscale (2 * (- 9 * sigma * (p_m target)\<^sup>2 * (k2 * p_r source ^ 5)\<^sup>2
                           / (2 * reduced_mass source target * distance source target ^ 10)))
                    (vcross (vscale (- ((distance source target)\<^sup>2)) (vec3 sx sy sz))
                            (separation source target))"
    unfolding dissipative_contribution_eq [OF assms(1,2)] dissipative_term_def Let_def f
    by (rule diss_core_flip)
  have "dissipative_contribution source' target' G k2 sigma sx sy sz
              = vscale (- 1) (dissipative_contribution source target G k2 sigma sx sy sz)"
    if z: "vcross (vec3 sx sy sz) (separation source target) = vec3 0 0 0"
  proof -
    have "vcross (vscale c (vec3 sx sy sz)) (separation source target)
            = vscale c (vcross (vec3 sx sy sz) (separation source target))" for c
      by (simp add: vcross_def vscale_def algebra_simps)
    then have zc: "vcross (vscale (- ((distance source target)\<^sup>2)) (vec3 sx sy sz))
                     (separation source target) = vec3 0 0 0"
      by (simp only: z) (simp add: vscale_def)
    have "vadd (dissipative_contribution source' target' G k2 sigma sx sy sz)
              (dissipative_contribution source target G k2 sigma sx sy sz) = vec3 0 0 0"
      unfolding d zc by (simp add: vscale_def)
    then show ?thesis
      by (simp add: vadd_def vscale_def vec3_def reb_vec3d.equality)
  qed
  with q d show ?thesis by blast
qed

theorem velocity_reversal_witness:
  "(1::real) \<noteq> 0 \<and> velocity_reversed body1 body0 body1_reversed body0 \<and>
   quadrupole_contribution body1_reversed body0 1 1 0 0 1
     = quadrupole_contribution body1 body0 1 1 0 0 1 \<and>
   vadd (dissipative_contribution body1_reversed body0 1 1 1 0 0 1)
        (dissipative_contribution body1 body0 1 1 1 0 0 1) = vec3 0 18 0 \<and>
   dissipative_contribution body1_reversed body0 1 1 1 1 0 0
     = vscale (- 1) (dissipative_contribution body1 body0 1 1 1 1 0 0)"
proof -
  have r: "velocity_reversed body1 body0 body1_reversed body0"
    by (simp add: velocity_reversed_def body1_def body1_reversed_def body0_def position_def
        relative_velocity_def velocity_def vsub_def vscale_def)
  have one: "(1::real) \<noteq> 0" by simp
  have c: "vcross (vec3 1 0 0) (separation body1 body0) = vec3 0 0 0"
    by (simp add: vcross_def separation_def position_def vsub_def body1_def body0_def)
  have v: "vscale (2 * (- 9 * 1 * (p_m body0)\<^sup>2 * (1 * p_r body1 ^ 5)\<^sup>2
                           / (2 * reduced_mass body1 body0 * distance body1 body0 ^ 10)))
                    (vcross (vscale (- ((distance body1 body0)\<^sup>2)) (vec3 0 0 1))
                            (separation body1 body0)) = vec3 0 18 0"
    by (simp add: vscale_def vcross_def separation_def distance_def position_def vsub_def vdot_def
        reduced_mass_def body1_def body0_def)
  from velocity_reversal [OF one one r, of 1 0 0 1] velocity_reversal [OF one one r, of 1 1 0 0]
    r c v show ?thesis by simp
qed

text \<open>
  C6 as stated fails: with the spin along \<open>z\<close>, the separation along \<open>x\<close> and the
  relative velocity along \<open>y\<close>, the dissipative contribution is zero before the reversal
  and \<open>(0, 18, 0)\<close> after it.
\<close>

theorem velocity_reversal_counterexample:
  "(1::real) \<noteq> 0 \<and> velocity_reversed body1 body0 body1_reversed body0 \<and>
   dissipative_contribution body1_reversed body0 1 1 1 0 0 1
     \<noteq> vscale (- 1) (dissipative_contribution body1 body0 1 1 1 0 0 1)"
proof -
  have r: "velocity_reversed body1 body0 body1_reversed body0"
    by (simp add: velocity_reversed_def body1_def body1_reversed_def body0_def position_def
        relative_velocity_def velocity_def vsub_def vscale_def)
  have a: "dissipative_contribution body1_reversed body0 1 1 1 0 0 1 = vec3 0 18 0"
    by (simp add: dissipative_contribution_def rebx_calculate_spin_orbit_accelerations_def
        body1_reversed_def body0_def vsub_def)
  have b: "dissipative_contribution body1 body0 1 1 1 0 0 1 = vec3 0 0 0"
    by (simp add: dissipative_contribution_def rebx_calculate_spin_orbit_accelerations_def
        body1_def body0_def vsub_def)
  show ?thesis unfolding a b using r by (simp add: vscale_def)
qed

section \<open>The pairwise force accumulator: momentum and frame\<close>

lemma outside_acceleration_eq_iff:
  "outside_acceleration p = outside_acceleration q \<longleftrightarrow>
     p_x p = p_x q \<and> p_y p = p_y q \<and> p_z p = p_z q \<and>
     p_vx p = p_vx q \<and> p_vy p = p_vy q \<and> p_vz p = p_vz q \<and>
     p_m p = p_m q \<and> p_r p = p_r q \<and> p_ap p = p_ap q"
  by (cases p, cases q) (auto simp: outside_acceleration_def)

lemma map_update_same:
  assumes "f v = f (xs ! i)"
  shows "map f (xs[i := v]) = map f xs"
proof (cases "i < length xs")
  case True
  then show ?thesis
    by (simp add: map_update assms list_update_same_conv)
next
  case False
  then show ?thesis
    by (simp add: list_update_beyond)
qed

lemma update_acceleration_frame:
  "map outside_acceleration (xs[i := (xs ! i)\<lparr>p_ax := a\<rparr>]) = map outside_acceleration xs"
  "map outside_acceleration (xs[i := (xs ! i)\<lparr>p_ay := a\<rparr>]) = map outside_acceleration xs"
  "map outside_acceleration (xs[i := (xs ! i)\<lparr>p_az := a\<rparr>]) = map outside_acceleration xs"
  by (rule map_update_same, simp add: outside_acceleration_def)+

lemma pair_frame:
  "map outside_acceleration (rebx_spin_orbit_accelerations ps i j G k2 sigma sx sy sz)
     = map outside_acceleration ps"
  unfolding rebx_spin_orbit_accelerations_def Let_def
  by (simp only: update_acceleration_frame)

lemma fold_frame:
  assumes "\<And>x s. map f (step x s) = map f s"
  shows "map f (fold step xs s) = map f s"
  by (induction xs arbitrary: s) (simp_all add: assms)

lemma target_frame:
  "map outside_acceleration (tides_spin_target G i k2 sigma_in sx sy sz j ps)
     = map outside_acceleration ps"
  by (simp add: tides_spin_target_def pair_frame)

lemma source_frame:
  "map outside_acceleration (tides_spin_source G N i ps) = map outside_acceleration ps"
  unfolding tides_spin_source_def Let_def
  by (simp add: fold_frame [where step = "tides_spin_target G i k2 sigma_in sx sy sz" for k2 sigma_in sx sy sz] target_frame)

text \<open>
  C9. \<^verbatim>\<open>rebx_tides_spin\<close> returns the particle array with every particle equal to the
  one it was given outside \<^verbatim>\<open>ax\<close>, \<^verbatim>\<open>ay\<close>, \<^verbatim>\<open>az\<close>: mass, position, velocity, radius and
  the parameter list with all its tags are unchanged (\<open>outside_acceleration_eq_iff\<close>),
  whatever the bodies and tags are.
\<close>

theorem tides_spin_frame:
  "map outside_acceleration (snd (rebx_tides_spin sim effect particles N))
     = map outside_acceleration particles"
  unfolding rebx_tides_spin_def Let_def snd_conv
  by (rule fold_frame) (rule source_frame)

lemma pair_source:
  assumes "source < length ps" "target < length ps" "source \<noteq> target"
  shows "rebx_spin_orbit_accelerations ps source target G k2 sigma sx sy sz ! source =
    (ps ! source)\<lparr>
      p_ax := p_ax (ps ! source) + (p_m (ps ! target) / (p_m (ps ! source) + p_m (ps ! target)))
        * vec_x (rebx_calculate_spin_orbit_accelerations (ps ! source) (ps ! target) G k2 sigma sx sy sz),
      p_ay := p_ay (ps ! source) + (p_m (ps ! target) / (p_m (ps ! source) + p_m (ps ! target)))
        * vec_y (rebx_calculate_spin_orbit_accelerations (ps ! source) (ps ! target) G k2 sigma sx sy sz),
      p_az := p_az (ps ! source) + (p_m (ps ! target) / (p_m (ps ! source) + p_m (ps ! target)))
        * vec_z (rebx_calculate_spin_orbit_accelerations (ps ! source) (ps ! target) G k2 sigma sx sy sz)\<rparr>"
  using assms unfolding rebx_spin_orbit_accelerations_def Let_def by simp

lemma pair_target:
  assumes "source < length ps" "target < length ps" "source \<noteq> target"
  shows "rebx_spin_orbit_accelerations ps source target G k2 sigma sx sy sz ! target =
    (ps ! target)\<lparr>
      p_ax := p_ax (ps ! target) - (p_m (ps ! source) / (p_m (ps ! source) + p_m (ps ! target)))
        * vec_x (rebx_calculate_spin_orbit_accelerations (ps ! source) (ps ! target) G k2 sigma sx sy sz),
      p_ay := p_ay (ps ! target) - (p_m (ps ! source) / (p_m (ps ! source) + p_m (ps ! target)))
        * vec_y (rebx_calculate_spin_orbit_accelerations (ps ! source) (ps ! target) G k2 sigma sx sy sz),
      p_az := p_az (ps ! target) - (p_m (ps ! source) / (p_m (ps ! source) + p_m (ps ! target)))
        * vec_z (rebx_calculate_spin_orbit_accelerations (ps ! source) (ps ! target) G k2 sigma sx sy sz)\<rparr>"
  using assms unfolding rebx_spin_orbit_accelerations_def Let_def by simp

text \<open>
  C3. One pair evaluation of the accumulator (the source has \<open>k2\<close> and its three spin
  components, both masses are nonzero, source and target are different particles of the
  array): the target's acceleration goes down by \<open>(m_source / m_total) force\<close>, the
  source's goes up by \<open>(m_target / m_total) force\<close>, for the one force the kernel
  returns, and \<open>m_source \<Delta>a_source + m_target \<Delta>a_target = 0\<close> in each component.
\<close>

theorem pair_evaluation_momentum:
  fixes ps :: "reb_particle list" and G sigma_in :: real
  assumes "i < length ps" and "j < length ps" and "i \<noteq> j"
    and "rebx_get_param (p_ap (ps ! i)) ''k2'' = Some k2"
    and "rebx_get_param (p_ap (ps ! i)) ''sx'' = Some sx"
    and "rebx_get_param (p_ap (ps ! i)) ''sy'' = Some sy"
    and "rebx_get_param (p_ap (ps ! i)) ''sz'' = Some sz"
    and "p_m (ps ! i) \<noteq> 0" and "p_m (ps ! j) \<noteq> 0"
  defines "ps' \<equiv> tides_spin_target G i k2 sigma_in sx sy sz j ps"
  defines "force \<equiv> rebx_calculate_spin_orbit_accelerations (ps ! i) (ps ! j) G k2 sigma_in sx sy sz"
  defines "ms \<equiv> p_m (ps ! i)" and "mt \<equiv> p_m (ps ! j)"
  shows "p_ax (ps' ! j) = p_ax (ps ! j) - (ms / (ms + mt)) * vec_x force
       \<and> p_ay (ps' ! j) = p_ay (ps ! j) - (ms / (ms + mt)) * vec_y force
       \<and> p_az (ps' ! j) = p_az (ps ! j) - (ms / (ms + mt)) * vec_z force
       \<and> p_ax (ps' ! i) = p_ax (ps ! i) + (mt / (ms + mt)) * vec_x force
       \<and> p_ay (ps' ! i) = p_ay (ps ! i) + (mt / (ms + mt)) * vec_y force
       \<and> p_az (ps' ! i) = p_az (ps ! i) + (mt / (ms + mt)) * vec_z force
       \<and> ms * (p_ax (ps' ! i) - p_ax (ps ! i)) + mt * (p_ax (ps' ! j) - p_ax (ps ! j)) = 0
       \<and> ms * (p_ay (ps' ! i) - p_ay (ps ! i)) + mt * (p_ay (ps' ! j) - p_ay (ps ! j)) = 0
       \<and> ms * (p_az (ps' ! i) - p_az (ps ! i)) + mt * (p_az (ps' ! j) - p_az (ps ! j)) = 0"
proof -
  have e: "ps' = rebx_spin_orbit_accelerations ps i j G k2 sigma_in sx sy sz"
    using assms(3,8,9) by (simp add: ps'_def tides_spin_target_def)
  show ?thesis
    unfolding e pair_source [OF assms(1-3)] pair_target [OF assms(1-3)]
    by (simp add: force_def ms_def mt_def)
qed

theorem pair_evaluation_momentum_witness:
  "(0::nat) < length [spinning_body, body0] \<and> (1::nat) < length [spinning_body, body0] \<and> (0::nat) \<noteq> 1
   \<and> rebx_get_param (p_ap ([spinning_body, body0] ! 0)) ''k2'' = Some 1
   \<and> rebx_get_param (p_ap ([spinning_body, body0] ! 0)) ''sx'' = Some 0
   \<and> rebx_get_param (p_ap ([spinning_body, body0] ! 0)) ''sy'' = Some 0
   \<and> rebx_get_param (p_ap ([spinning_body, body0] ! 0)) ''sz'' = Some 1
   \<and> p_m ([spinning_body, body0] ! 0) \<noteq> 0 \<and> p_m ([spinning_body, body0] ! 1) \<noteq> 0
   \<and> p_ax (tides_spin_target 1 0 1 1 0 0 1 1 [spinning_body, body0] ! 1) = 13 / 2
   \<and> p_ax (tides_spin_target 1 0 1 1 0 0 1 1 [spinning_body, body0] ! 0) = - 13 / 2
   \<and> p_m spinning_body * (p_ax (tides_spin_target 1 0 1 1 0 0 1 1 [spinning_body, body0] ! 0) - 0)
       + p_m body0 * (p_ax (tides_spin_target 1 0 1 1 0 0 1 1 [spinning_body, body0] ! 1) - 0) = 0"
proof -
  have h: "(0::nat) < length [spinning_body, body0]" "(1::nat) < length [spinning_body, body0]"
    "(0::nat) \<noteq> 1"
    "rebx_get_param (p_ap ([spinning_body, body0] ! 0)) ''k2'' = Some 1"
    "rebx_get_param (p_ap ([spinning_body, body0] ! 0)) ''sx'' = Some 0"
    "rebx_get_param (p_ap ([spinning_body, body0] ! 0)) ''sy'' = Some 0"
    "rebx_get_param (p_ap ([spinning_body, body0] ! 0)) ''sz'' = Some 1"
    "p_m ([spinning_body, body0] ! 0) \<noteq> 0" "p_m ([spinning_body, body0] ! 1) \<noteq> 0"
    by (simp_all add: spinning_body_def body1_def body0_def rebx_get_param_def)
  have f: "rebx_calculate_spin_orbit_accelerations spinning_body body0 1 1 1 0 0 1 = vec3 (- 13) 0 0"
    by (simp add: rebx_calculate_spin_orbit_accelerations_def spinning_body_def body1_def body0_def
        vec3_def)
  have a: "p_ax spinning_body = 0" "p_ax body0 = 0" "p_m spinning_body = 1" "p_m body0 = 1"
    by (simp_all add: spinning_body_def body1_def body0_def)
  from pair_evaluation_momentum [OF h, of 1 1] h show ?thesis
    by (simp add: f a)
qed

section \<open>The spin potential: the double sum\<close>

lemma fold_accumulate:
  fixes g :: "nat \<Rightarrow> real"
  assumes "\<And>x H. step x H = H + g x"
  shows "fold step xs H = H + sum_list (map g xs)"
  by (induction xs arbitrary: H) (simp_all add: assms)

lemma sum_list_upt_filter:
  fixes f :: "nat \<Rightarrow> real"
  shows "sum_list (map (\<lambda>i. if P i then f i else 0) [0..<n]) = (\<Sum>i | i < n \<and> P i. f i)"
proof -
  have s: "{i \<in> {0..<n}. P i} = {i. i < n \<and> P i}"
    by auto
  have "sum_list (map (\<lambda>i. if P i then f i else 0) [0..<n]) = (\<Sum>i\<in>{0..<n}. if P i then f i else 0)"
    by (simp only: interv_sum_list_conv_sum_set_nat set_upt)
  also have "\<dots> = sum f {i \<in> {0..<n}. P i}"
    by (rule sum.inter_filter [symmetric]) simp
  finally show ?thesis
    unfolding s .
qed

lemma spin_potential_pair:
  assumes "p_m source \<noteq> 0" and "p_m target \<noteq> 0"
  shows "rebx_calculate_spin_potential source target G k2 = potential_contribution G k2 source target"
proof -
  define d2 where "d2 = (distance source target)\<^sup>2"
  have d2: "(p_x target - p_x source) * (p_x target - p_x source)
          + (p_y target - p_y source) * (p_y target - p_y source)
          + (p_z target - p_z source) * (p_z target - p_z source) = d2"
    unfolding d2_def distance_sq by (simp add: algebra_simps)
  have "distance source target ^ 6 = ((distance source target)\<^sup>2) ^ 3"
    by (simp flip: power_mult)
  then have d6: "distance source target ^ 6 = d2 * d2 * d2"
    by (simp add: d2_def power3_eq_cube)
  show ?thesis
    unfolding rebx_calculate_spin_potential_def potential_contribution_def Let_def d2 d6
    by (simp add: power_numeral_reduce)
qed

lemma spin_potential_inner:
  "fold (spin_potential_target ps G i k2) [0..<n] H
     = H + (\<Sum>j | j < n \<and> j \<noteq> i \<and> p_m (ps ! i) \<noteq> 0 \<and> p_m (ps ! j) \<noteq> 0.
              rebx_calculate_spin_potential (ps ! i) (ps ! j) G k2)"
proof -
  have "fold (spin_potential_target ps G i k2) [0..<n] H
      = H + sum_list (map (\<lambda>j. if j \<noteq> i \<and> p_m (ps ! i) \<noteq> 0 \<and> p_m (ps ! j) \<noteq> 0
                                then rebx_calculate_spin_potential (ps ! i) (ps ! j) G k2 else 0) [0..<n])"
    by (rule fold_accumulate) (auto simp: spin_potential_target_def)
  then show ?thesis
    by (simp only: sum_list_upt_filter)
qed

lemma spin_potential_outer:
  "fold (spin_potential_source ps G N_real) [0..<n] H
     = H + (\<Sum>i | i < n \<and> potential_source (ps ! i).
             \<Sum>j | j < nat N_real \<and> j \<noteq> i \<and> p_m (ps ! j) \<noteq> 0.
               potential_contribution G (the (rebx_get_param (p_ap (ps ! i)) ''k2'')) (ps ! i) (ps ! j))"
proof -
  have step: "spin_potential_source ps G N_real i H
      = H + (if potential_source (ps ! i)
             then \<Sum>j | j < nat N_real \<and> j \<noteq> i \<and> p_m (ps ! j) \<noteq> 0.
                    potential_contribution G (the (rebx_get_param (p_ap (ps ! i)) ''k2'')) (ps ! i) (ps ! j)
             else 0)" for i H
  proof (cases "potential_source (ps ! i)")
    case True
    then have m: "p_m (ps ! i) \<noteq> 0"
      by (simp add: potential_source_def)
    have "(\<Sum>j | j < nat N_real \<and> j \<noteq> i \<and> p_m (ps ! i) \<noteq> 0 \<and> p_m (ps ! j) \<noteq> 0.
              rebx_calculate_spin_potential (ps ! i) (ps ! j) G k2)
        = (\<Sum>j | j < nat N_real \<and> j \<noteq> i \<and> p_m (ps ! j) \<noteq> 0.
              potential_contribution G k2 (ps ! i) (ps ! j))" for k2
      by (rule sum.cong) (auto simp: m spin_potential_pair)
    note eq = this
    from True obtain k2v sv where t: "rebx_get_param (p_ap (ps ! i)) ''k2'' = Some k2v"
      "rebx_get_param (p_ap (ps ! i)) ''sigma'' = Some sv" "p_r (ps ! i) \<noteq> 0"
      by (auto simp: potential_source_def)
    show ?thesis
      unfolding spin_potential_source_def Let_def spin_potential_inner eq
      by (simp add: t m True)
  next
    case False
    then show ?thesis
      by (auto simp: spin_potential_source_def Let_def potential_source_def)
  qed
  have "fold (spin_potential_source ps G N_real) [0..<n] H
      = H + sum_list (map (\<lambda>i. if potential_source (ps ! i)
             then \<Sum>j | j < nat N_real \<and> j \<noteq> i \<and> p_m (ps ! j) \<noteq> 0.
                    potential_contribution G (the (rebx_get_param (p_ap (ps ! i)) ''k2'')) (ps ! i) (ps ! j)
             else 0) [0..<n])"
    by (rule fold_accumulate) (rule step)
  then show ?thesis
    by (simp only: sum_list_upt_filter)
qed

text \<open>
  C7. On a simulation whose particle array holds its real bodies, \<^verbatim>\<open>rebx_spin_potential\<close>
  returns the sum over the ordered pairs of distinct real bodies (source, target), the
  source with \<open>k2\<close> and \<open>sigma\<close> set and nonzero radius and mass, the target with nonzero
  mass, of \<open>- 1/2 G m_source m_target (m_source / m_target) k2 R_target^5 / r^6\<close> with the
  source's \<open>k2\<close> and the target's radius.
\<close>

theorem spin_potential_sum:
  assumes "rebx_sim rebx = Some sim"
    and "nat (sim_N sim - sim_N_var sim) \<le> length (sim_particles sim)"
  shows "fst (rebx_spin_potential rebx) =
    (\<Sum>i | i < nat (sim_N sim - sim_N_var sim) \<and> potential_source (sim_particles sim ! i).
       \<Sum>j | j < nat (sim_N sim - sim_N_var sim) \<and> j \<noteq> i \<and> p_m (sim_particles sim ! j) \<noteq> 0.
         potential_contribution (sim_G sim)
           (the (rebx_get_param (p_ap (sim_particles sim ! i)) ''k2''))
           (sim_particles sim ! i) (sim_particles sim ! j))"
  by (simp add: rebx_spin_potential_def assms(1) Let_def spin_potential_outer)

theorem spin_potential_sum_witness:
  "rebx_sim \<lparr>rebx_sim = Some two_body_sim\<rparr> = Some two_body_sim
   \<and> nat (sim_N two_body_sim - sim_N_var two_body_sim) \<le> length (sim_particles two_body_sim)
   \<and> fst (rebx_spin_potential \<lparr>rebx_sim = Some two_body_sim\<rparr>) =
      (\<Sum>i | i < nat (sim_N two_body_sim - sim_N_var two_body_sim)
                \<and> potential_source (sim_particles two_body_sim ! i).
         \<Sum>j | j < nat (sim_N two_body_sim - sim_N_var two_body_sim) \<and> j \<noteq> i
                  \<and> p_m (sim_particles two_body_sim ! j) \<noteq> 0.
           potential_contribution (sim_G two_body_sim)
             (the (rebx_get_param (p_ap (sim_particles two_body_sim ! i)) ''k2''))
             (sim_particles two_body_sim ! i) (sim_particles two_body_sim ! j))
   \<and> fst (rebx_spin_potential \<lparr>rebx_sim = Some two_body_sim\<rparr>) = - 1 / 2"
proof -
  have h: "rebx_sim \<lparr>rebx_sim = Some two_body_sim\<rparr> = Some two_body_sim"
    "nat (sim_N two_body_sim - sim_N_var two_body_sim) \<le> length (sim_particles two_body_sim)"
    by (simp_all add: two_body_sim_def)
  have u: "[0..<2] = [0, Suc 0]"
    by (simp add: upt_rec)
  have v: "fst (rebx_spin_potential \<lparr>rebx_sim = Some two_body_sim\<rparr>) = - 1 / 2"
    by (simp add: rebx_spin_potential_def two_body_sim_def u spin_potential_source_def
        spin_potential_target_def rebx_calculate_spin_potential_def rebx_get_param_def
        tidal_body_def body1_def body0_def)
  from spin_potential_sum [OF h] h v show ?thesis
    by simp
qed

section \<open>The helpers that derive sigma: values and errors\<close>

text \<open>
  C8. With \<open>k2\<close> set and a nonzero radius \<^verbatim>\<open>rebx_tides_calc_sigma_from_tau\<close> returns
  \<open>4 \<tau> G / (3 R^5 k2)\<close> and \<^verbatim>\<open>rebx_tides_calc_sigma_from_Q\<close> returns
  \<open>2 G / (3 Q R^5 k2 n)\<close>, \<open>n\<close> the mean motion of the body's orbit about the primary, and
  neither reports an error; with \<open>k2\<close> absent or a zero radius each reports one error
  message and returns 0. Both return normally in either case.
\<close>

theorem sigma_helpers:
  assumes "rebx_sim rebx = Some sim"
  shows "(rebx_get_param (p_ap body) ''k2'' = Some k2 \<and> p_r body \<noteq> 0 \<longrightarrow>
            rebx_tides_calc_sigma_from_tau rebx body tau
              = Inr (4 * tau * sim_G sim / (3 * p_r body ^ 5 * k2), [])
          \<and> rebx_tides_calc_sigma_from_Q to_orbit rebx body primary Q
              = Inr (2 * sim_G sim
                       / (3 * Q * p_r body ^ 5 * k2 * orb_n (to_orbit (sim_G sim) body primary)), []))
       \<and> (rebx_get_param (p_ap body) ''k2'' = None \<or> p_r body = 0 \<longrightarrow>
            (\<exists>msg. rebx_tides_calc_sigma_from_tau rebx body tau = Inr (0, [msg]))
          \<and> (\<exists>msg. rebx_tides_calc_sigma_from_Q to_orbit rebx body primary Q = Inr (0, [msg])))"
  by (auto simp: rebx_tides_calc_sigma_from_tau_def rebx_tides_calc_sigma_from_Q_def assms Let_def
      power_numeral_reduce mult.assoc)

theorem sigma_helpers_witness:
  "rebx_sim \<lparr>rebx_sim = Some two_body_sim\<rparr> = Some two_body_sim
   \<and> rebx_get_param (p_ap tidal_body) ''k2'' = Some 1 \<and> p_r tidal_body \<noteq> 0
   \<and> rebx_tides_calc_sigma_from_tau \<lparr>rebx_sim = Some two_body_sim\<rparr> tidal_body 3 = Inr (4, [])
   \<and> rebx_tides_calc_sigma_from_Q circular_orbit \<lparr>rebx_sim = Some two_body_sim\<rparr> tidal_body body0 1
       = Inr (1 / 3, [])
   \<and> rebx_get_param (p_ap body0) ''k2'' = None
   \<and> (\<exists>msg. rebx_tides_calc_sigma_from_tau \<lparr>rebx_sim = Some two_body_sim\<rparr> body0 3 = Inr (0, [msg]))
   \<and> (\<exists>msg. rebx_tides_calc_sigma_from_Q circular_orbit \<lparr>rebx_sim = Some two_body_sim\<rparr> body0 tidal_body 1
               = Inr (0, [msg]))"
proof -
  have h: "rebx_sim \<lparr>rebx_sim = Some two_body_sim\<rparr> = Some two_body_sim"
    by simp
  have a: "rebx_get_param (p_ap tidal_body) ''k2'' = Some 1" "p_r tidal_body \<noteq> 0"
    "rebx_get_param (p_ap body0) ''k2'' = None"
    by (simp_all add: tidal_body_def body1_def body0_def rebx_get_param_def)
  have g: "sim_G two_body_sim = 1" "p_r tidal_body = 1"
    by (simp_all add: two_body_sim_def tidal_body_def body1_def body0_def)
  from sigma_helpers [OF h, of tidal_body 1 3 circular_orbit body0 1]
    sigma_helpers [OF h, of body0 1 3 circular_orbit tidal_body 1] h a
  show ?thesis
    by (simp add: g circular_orbit_def)
qed

section \<open>Creation of the spin ODE: when and what\<close>

lemma unat_of_nat_32:
  assumes "n < 2 ^ 32"
  shows "unat (of_nat n :: 32 word) = n"
  using assms by (simp add: unat_of_nat)

lemma count_filter_le: "length (filter P [0..<n]) \<le> n"
  using length_filter_le [of P "[0..<n]"] by simp

lemma count_real_le: "count_real P sim \<le> nat (sim_N sim - sim_N_var sim)"
  unfolding count_real_def by (rule count_filter_le)

lemma spin_initialize_loop:
  "fold (spin_initialize_count ps) xs w
     = w + of_nat (length (filter (\<lambda>i. spin_tracked (ps ! i)) xs))"
  by (induction xs arbitrary: w) (simp_all add: spin_initialize_count_def spin_tracked_def Let_def)

text \<open>
  C10. On a simulation whose particle array holds its real bodies, fewer than \<open>2^32 / 3\<close>
  of them, let \<open>n\<close> be the number of real bodies with \<open>moi\<close>, \<open>sx\<close>, \<open>sy\<close> and \<open>sz\<close> set
  (\<open>k2\<close> is not looked at). If \<open>n > 0\<close>, \<^verbatim>\<open>rebx_spin_initialize_ode\<close> appends one ODE of
  length \<open>3 n\<close> with the three callbacks and the back-reference set and records it under
  \<open>ode\<close> in the effect's parameters; if \<open>n = 0\<close> it leaves simulation and effect as they
  are.
\<close>

theorem spin_initialize_ode_registers:
  assumes "rebx_sim rebx = Some sim"
    and "nat (sim_N sim - sim_N_var sim) \<le> length (sim_particles sim)"
    and "3 * nat (sim_N sim - sim_N_var sim) < 2 ^ 32"
  shows "(0 < count_real spin_tracked sim \<longrightarrow>
            rebx_spin_initialize_ode rebx effect =
              Inr (rebx\<lparr>rebx_sim := Some (sim\<lparr>sim_odes := sim_odes sim
                                               @ [registered_spin_ode (count_real spin_tracked sim)]\<rparr>)\<rparr>,
                   effect\<lparr>force_ap := (force_ap effect)(''ode'' \<mapsto> length (sim_odes sim))\<rparr>)
          \<and> unat (ode_length (registered_spin_ode (count_real spin_tracked sim)))
              = 3 * count_real spin_tracked sim)
       \<and> (count_real spin_tracked sim = 0 \<longrightarrow> rebx_spin_initialize_ode rebx effect = Inr (rebx, effect))"
proof -
  define n where "n = count_real spin_tracked sim"
  have "n \<le> nat (sim_N sim - sim_N_var sim)"
    unfolding n_def by (rule count_real_le)
  with assms(3) have b: "3 * n < 2 ^ 32" and b1: "n < 2 ^ 32"
    by simp_all
  have loop: "fold (spin_initialize_count (sim_particles sim)) [0..<nat (sim_N sim - sim_N_var sim)] 0
               = (of_nat n :: 32 word)"
    by (simp add: spin_initialize_loop n_def count_real_def)
  have pos: "(0 < (of_nat n :: 32 word)) = (0 < n)"
    using unat_of_nat_32 [OF b1] by (metis unat_gt_0 word_gt_0)
  have len: "(of_nat n :: 32 word) * 3 = of_nat (3 * n)"
    by simp
  have u0: "unat (3 * of_nat n :: 32 word) = 3 * n"
    using unat_of_nat_32 [OF b] by simp
  have u: "unat (of_nat (3 * n) :: 32 word) = 3 * n"
    by (rule unat_of_nat_32 [OF b])
  have z: "n = 0 \<Longrightarrow> rebx_spin_initialize_ode rebx effect = Inr (rebx, effect)"
    by (simp add: rebx_spin_initialize_ode_def assms(1) Let_def loop)
  have r: "0 < n \<Longrightarrow> rebx_spin_initialize_ode rebx effect =
              Inr (rebx\<lparr>rebx_sim := Some (sim\<lparr>sim_odes := sim_odes sim @ [registered_spin_ode n]\<rparr>)\<rparr>,
                   effect\<lparr>force_ap := (force_ap effect)(''ode'' \<mapsto> length (sim_odes sim))\<rparr>)"
    by (simp add: rebx_spin_initialize_ode_def assms(1) Let_def loop pos len u u0
        reb_create_ode_def registered_spin_ode_def rebx_set_param_pointer_def del: of_nat_mult)
  show ?thesis
    using z r u unfolding n_def [symmetric] by (simp add: registered_spin_ode_def)
qed

theorem spin_initialize_ode_registers_witness:
  "rebx_sim \<lparr>rebx_sim = Some rigid_sim\<rparr> = Some rigid_sim
   \<and> nat (sim_N rigid_sim - sim_N_var rigid_sim) \<le> length (sim_particles rigid_sim)
   \<and> 3 * nat (sim_N rigid_sim - sim_N_var rigid_sim) < (2::nat) ^ 32
   \<and> count_real spin_tracked rigid_sim = 1
   \<and> rebx_get_param (p_ap rigid_body) ''k2'' = None
   \<and> rebx_spin_initialize_ode \<lparr>rebx_sim = Some rigid_sim\<rparr> \<lparr>force_ap = Map.empty\<rparr> =
       Inr (\<lparr>rebx_sim = Some (rigid_sim\<lparr>sim_odes := [registered_spin_ode 1]\<rparr>)\<rparr>,
            \<lparr>force_ap = [''ode'' \<mapsto> 0]\<rparr>)
   \<and> unat (ode_length (registered_spin_ode 1)) = 3
   \<and> count_real spin_tracked two_body_sim = 0
   \<and> rebx_spin_initialize_ode \<lparr>rebx_sim = Some two_body_sim\<rparr> \<lparr>force_ap = Map.empty\<rparr> =
       Inr (\<lparr>rebx_sim = Some two_body_sim\<rparr>, \<lparr>force_ap = Map.empty\<rparr>)"
proof -
  have u: "[0..<2] = [0, Suc 0]"
    by (simp add: upt_rec)
  have h: "rebx_sim \<lparr>rebx_sim = Some rigid_sim\<rparr> = Some rigid_sim"
    "nat (sim_N rigid_sim - sim_N_var rigid_sim) \<le> length (sim_particles rigid_sim)"
    "3 * nat (sim_N rigid_sim - sim_N_var rigid_sim) < (2::nat) ^ 32"
    by (simp_all add: rigid_sim_def)
  have h': "rebx_sim \<lparr>rebx_sim = Some two_body_sim\<rparr> = Some two_body_sim"
    "nat (sim_N two_body_sim - sim_N_var two_body_sim) \<le> length (sim_particles two_body_sim)"
    "3 * nat (sim_N two_body_sim - sim_N_var two_body_sim) < (2::nat) ^ 32"
    by (simp_all add: two_body_sim_def)
  have c: "count_real spin_tracked rigid_sim = 1"
    by (simp add: count_real_def rigid_sim_def u spin_tracked_def rebx_get_param_def
        rigid_body_def body1_def body0_def)
  have c': "count_real spin_tracked two_body_sim = 0"
    by (simp add: count_real_def two_body_sim_def u spin_tracked_def rebx_get_param_def
        tidal_body_def body1_def body0_def)
  have k: "rebx_get_param (p_ap rigid_body) ''k2'' = None"
    by (simp add: rebx_get_param_def rigid_body_def body1_def body0_def)
  have o: "sim_odes rigid_sim = []"
    by (simp add: rigid_sim_def)
  from spin_initialize_ode_registers [OF h, of "\<lparr>force_ap = Map.empty\<rparr>"]
    spin_initialize_ode_registers [OF h', of "\<lparr>force_ap = Map.empty\<rparr>"] h c c' k
  show ?thesis
    by (simp add: o)
qed

section \<open>The synchronizer's length check\<close>

lemma for_each_append:
  "for_each body (xs @ ys) s =
     (case for_each body xs s of Inl e \<Rightarrow> Inl e | Inr s' \<Rightarrow> for_each body ys s')"
  by (induction xs arbitrary: s) (simp_all split: sum.splits)

lemma word3_index:
  assumes "3 * k + 2 < 2 ^ 32"
  shows "unat (3 * of_nat k :: 32 word) = 3 * k"
    and "unat (3 * of_nat k + 1 :: 32 word) = 3 * k + 1"
    and "unat (3 * of_nat k + 2 :: 32 word) = 3 * k + 2"
proof -
  from assms have b: "3 * k < 2 ^ 32" "3 * k + 1 < 2 ^ 32"
    by simp_all
  have "unat (3 * of_nat k :: 32 word) = unat (of_nat (3 * k) :: 32 word)"
    by simp
  then show "unat (3 * of_nat k :: 32 word) = 3 * k"
    by (simp only: unat_of_nat_32 [OF b(1)])
  have "unat (3 * of_nat k + 1 :: 32 word) = unat (of_nat (3 * k + 1) :: 32 word)"
    by (simp add: ac_simps)
  then show "unat (3 * of_nat k + 1 :: 32 word) = 3 * k + 1"
    by (simp only: unat_of_nat_32 [OF b(2)])
  have "unat (3 * of_nat k + 2 :: 32 word) = unat (of_nat (3 * k + 2) :: 32 word)"
    by (simp add: ac_simps)
  then show "unat (3 * of_nat k + 2 :: 32 word) = 3 * k + 2"
    by (simp only: unat_of_nat_32 [OF assms])
qed

text \<open>One step of each scan.\<close>

lemma sync_pre_body_k2:
  assumes "k2_set (ps ! i)" and "spin_sync_pre_body ps i (w, y) = Inr s"
  shows "fst s = w + 1" and "length (snd s) = length y"
  using assms by (auto simp: spin_sync_pre_body_def k2_set_def Let_def split: if_splits)

lemma sync_pre_body_skip:
  assumes "\<not> k2_set (ps ! i)"
  shows "spin_sync_pre_body ps i s = Inr s"
  using assms by (simp add: spin_sync_pre_body_def k2_set_def Let_def)

lemma sync_pre_body_inside:
  assumes "k2_set (ps ! i)" and "spin_tracked (ps ! i)" and "3 * c + 2 < length y"
    and "length y < 2 ^ 32"
  shows "\<exists>y'. spin_sync_pre_body ps i (of_nat c, y) = Inr (of_nat (Suc c), y') \<and> length y' = length y"
proof -
  from assms(3,4) have "3 * c + 2 < 2 ^ 32"
    by simp
  note ix = word3_index [OF this]
  show ?thesis
    using assms(1-3)
    by (simp add: spin_sync_pre_body_def k2_set_def spin_tracked_def Let_def ix)
qed

lemma sync_post_body_step:
  assumes "spin_sync_post_body y0 i (w, ps) = Inr s"
  shows "fst s = (if k2_set (ps ! i) then w + 1 else w)"
  using assms by (auto simp: spin_sync_post_body_def k2_set_def Let_def split: if_splits)

lemma sync_post_body_skip:
  assumes "\<not> k2_set (snd s ! i)"
  shows "spin_sync_post_body y0 i s = Inr s"
  using assms by (simp add: spin_sync_post_body_def k2_set_def Let_def)

lemma sync_post_body_inside:
  assumes "k2_set (ps ! i)" and "3 * c + 2 < length y0" and "length y0 < 2 ^ 32"
  shows "\<exists>ps'. spin_sync_post_body y0 i (of_nat c, ps) = Inr (of_nat (Suc c), ps')"
proof -
  from assms(2,3) have "3 * c + 2 < 2 ^ 32"
    by simp
  note ix = word3_index [OF this]
  show ?thesis
    using assms(1,2) by (simp add: spin_sync_post_body_def k2_set_def Let_def ix)
qed

lemma for_each_Cons_Inr:
  assumes "for_each body (j # js) s = Inr r"
  obtains s' where "body j s = Inr s'" and "for_each body js s' = Inr r"
  using assms by (auto split: sum.splits)

text \<open>What a scan that returns has counted.\<close>

text \<open>What a scan that returns has counted.\<close>

lemma sync_pre_count:
  assumes "for_each (spin_sync_pre_body ps) xs (w, y) = Inr s"
  shows "fst s = w + of_nat (length (filter (\<lambda>i. k2_set (ps ! i)) xs)) \<and> length (snd s) = length y"
  using assms
proof (induction xs arbitrary: w y)
  case Nil
  then show ?case by auto
next
  case (Cons i xs)
  from Cons.prems obtain s' where b: "spin_sync_pre_body ps i (w, y) = Inr s'"
    and r: "for_each (spin_sync_pre_body ps) xs s' = Inr s"
    by (rule for_each_Cons_Inr)
  obtain w' y' where s': "s' = (w', y')"
    by (cases s')
  show ?case
  proof (cases "k2_set (ps ! i)")
    case True
    from sync_pre_body_k2 [OF True b] have "w' = w + 1" "length y' = length y"
      by (simp_all add: s')
    with Cons.IH [OF r [unfolded s']] True show ?thesis
      by simp
  next
    case False
    from b have "w' = w" "y' = y"
      by (simp_all add: sync_pre_body_skip [OF False] s')
    with Cons.IH [OF r [unfolded s']] False show ?thesis
      by simp
  qed
qed

lemma sync_post_body_k2:
  assumes "spin_sync_post_body y0 i (w, ps) = Inr (w', ps')"
  shows "k2_set (ps' ! k) = k2_set (ps ! k)"
proof (cases "k2_set (ps ! i)")
  case True
  with assms have e: "ps' = ps[i := (ps ! i)\<lparr>p_ap := (p_ap (ps ! i))
      (''sx'' \<mapsto> y0 ! unat (3 * w), ''sy'' \<mapsto> y0 ! unat (3 * w + 1), ''sz'' \<mapsto> y0 ! unat (3 * w + 2))\<rparr>]"
    by (simp add: spin_sync_post_body_def k2_set_def Let_def rebx_set_param_double_def
        split: if_splits)
  show ?thesis
  proof (cases "k = i \<and> i < length ps")
    case True
    then show ?thesis
      unfolding e by (simp add: k2_set_def rebx_get_param_def)
  next
    case False
    then show ?thesis
      unfolding e by (cases "k = i") (simp_all add: list_update_beyond)
  qed
next
  case False
  with assms show ?thesis
    by (simp add: spin_sync_post_body_def k2_set_def Let_def)
qed

lemma sync_post_count:
  assumes "for_each (spin_sync_post_body y0) xs (w, ps) = Inr s"
  shows "fst s = w + of_nat (length (filter (\<lambda>i. k2_set (ps ! i)) xs))"
  using assms
proof (induction xs arbitrary: w ps)
  case Nil
  then show ?case by auto
next
  case (Cons i xs)
  from Cons.prems obtain s' where b: "spin_sync_post_body y0 i (w, ps) = Inr s'"
    and r: "for_each (spin_sync_post_body y0) xs s' = Inr s"
    by (rule for_each_Cons_Inr)
  obtain w' ps' where s': "s' = (w', ps')"
    by (cases s')
  have k: "(\<lambda>i. k2_set (ps' ! i)) = (\<lambda>i. k2_set (ps ! i))"
    using sync_post_body_k2 [OF b [unfolded s']] by auto
  have w': "w' = (if k2_set (ps ! i) then w + 1 else w)"
    using sync_post_body_step [OF b] by (simp add: s')
  from Cons.IH [OF r [unfolded s']] show ?case
    by (simp add: k w')
qed

text \<open>A scan that stays inside the vector returns.\<close>

lemma sync_pre_returns:
  assumes "\<forall>i\<in>set xs. k2_set (ps ! i) \<longrightarrow> spin_tracked (ps ! i)"
    and "3 * (c + length (filter (\<lambda>i. k2_set (ps ! i)) xs)) \<le> length y"
    and "length y < 2 ^ 32"
  shows "\<exists>s. for_each (spin_sync_pre_body ps) xs (of_nat c, y) = Inr s"
  using assms
proof (induction xs arbitrary: c y)
  case Nil
  then show ?case by simp
next
  case (Cons i xs)
  show ?case
  proof (cases "k2_set (ps ! i)")
    case True
    with Cons.prems(2) have b: "3 * c + 2 < length y"
      and n: "3 * (Suc c + length (filter (\<lambda>i. k2_set (ps ! i)) xs)) \<le> length y"
      by simp_all
    from True Cons.prems(1) have t: "spin_tracked (ps ! i)"
      by simp
    from sync_pre_body_inside [OF True t b Cons.prems(3)]
    obtain y' where s: "spin_sync_pre_body ps i (of_nat c, y) = Inr (of_nat (Suc c), y')"
      and l: "length y' = length y"
      by blast
    have "\<exists>s. for_each (spin_sync_pre_body ps) xs (of_nat (Suc c), y') = Inr s"
      using Cons.prems(1) n Cons.prems(3) by (intro Cons.IH) (simp_all add: l)
    then show ?thesis
      by (simp add: s)
  next
    case False
    have "\<exists>s. for_each (spin_sync_pre_body ps) xs (of_nat c, y) = Inr s"
      using Cons.prems False by (intro Cons.IH) simp_all
    then show ?thesis
      by (simp add: sync_pre_body_skip [OF False])
  qed
qed

lemma sync_post_returns:
  assumes "3 * (c + length (filter (\<lambda>i. k2_set (ps ! i)) xs)) \<le> length y0"
    and "length y0 < 2 ^ 32"
  shows "\<exists>s. for_each (spin_sync_post_body y0) xs (of_nat c, ps) = Inr s"
  using assms
proof (induction xs arbitrary: c ps)
  case Nil
  then show ?case by simp
next
  case (Cons i xs)
  show ?case
  proof (cases "k2_set (ps ! i)")
    case True
    with Cons.prems(1) have b: "3 * c + 2 < length y0"
      and n: "3 * (Suc c + length (filter (\<lambda>i. k2_set (ps ! i)) xs)) \<le> length y0"
      by simp_all
    from sync_post_body_inside [OF True b Cons.prems(2)]
    obtain ps' where s: "spin_sync_post_body y0 i (of_nat c, ps) = Inr (of_nat (Suc c), ps')"
      by blast
    have k: "(\<lambda>i. k2_set (ps' ! i)) = (\<lambda>i. k2_set (ps ! i))"
      using sync_post_body_k2 [OF s] by auto
    have "\<exists>s. for_each (spin_sync_post_body y0) xs (of_nat (Suc c), ps') = Inr s"
      using n Cons.prems(2) by (intro Cons.IH) (simp_all add: k)
    then show ?thesis
      by (simp add: s)
  next
    case False
    then have f: "\<not> k2_set (snd (of_nat c :: 32 word, ps) ! i)"
      by simp
    have "\<exists>s. for_each (spin_sync_post_body y0) xs (of_nat c, ps) = Inr s"
      using Cons.prems False by (intro Cons.IH) simp_all
    then show ?thesis
      by (simp add: sync_post_body_skip [OF f])
  qed
qed

lemma word3_count:
  assumes "3 * n < 2 ^ 32"
  shows "unat ((0 + of_nat n) * 3 :: 32 word) = 3 * n"
proof -
  have "((0 + of_nat n) * 3 :: 32 word) = of_nat (3 * n)"
    by simp
  then show ?thesis
    by (simp only: unat_of_nat_32 [OF assms])
qed

text \<open>The synchronizer on the count of bodies with \<open>k2\<close> set.\<close>

lemma sync_pre_k2_count:
  assumes "ode_ref ode = Simulation_pointer"
    and "3 * nat (sim_N sim - sim_N_var sim) < 2 ^ 32"
    and "rebx_spin_sync_pre sim ode y0 = Inr ode'"
  shows "unat (ode_length ode) = 3 * count_real k2_set sim"
proof -
  from assms(1,3) obtain s where s: "spin_sync_pre_scan sim ode = Inr s"
    and l: "ode_length ode = fst s * 3"
    by (auto simp: rebx_spin_sync_pre_def split: sum.splits if_splits)
  from sync_pre_count [OF s [unfolded spin_sync_pre_scan_def]]
  have "fst s = 0 + of_nat (count_real k2_set sim)"
    by (simp add: count_real_def)
  moreover have "3 * count_real k2_set sim < 2 ^ 32"
    using count_real_le [of k2_set sim] assms(2) by simp
  ultimately show ?thesis
    unfolding l by (simp only: word3_count)
qed

lemma sync_post_k2_count:
  assumes "ode_ref ode = Simulation_pointer"
    and "3 * nat (sim_N sim - sim_N_var sim) < 2 ^ 32"
    and "rebx_spin_sync_post sim ode y0 = Inr sim'"
  shows "unat (ode_length ode) = 3 * count_real k2_set sim"
proof -
  from assms(1,3) obtain s where s: "spin_sync_post_scan sim y0 = Inr s"
    and l: "ode_length ode = fst s * 3"
    by (auto simp: rebx_spin_sync_post_def split: sum.splits if_splits)
  from sync_post_count [OF s [unfolded spin_sync_post_scan_def]]
  have "fst s = 0 + of_nat (count_real k2_set sim)"
    by (simp add: count_real_def)
  moreover have "3 * count_real k2_set sim < 2 ^ 32"
    using count_real_le [of k2_set sim] assms(2) by simp
  ultimately show ?thesis
    unfolding l by (simp only: word3_count)
qed

lemma sync_pre_exit:
  assumes "ode_ref ode = Simulation_pointer"
    and "3 * nat (sim_N sim - sim_N_var sim) < 2 ^ 32"
    and "\<forall>i < nat (sim_N sim - sim_N_var sim).
           k2_set (sim_particles sim ! i) \<longrightarrow> spin_tracked (sim_particles sim ! i)"
    and "3 * count_real k2_set sim \<le> length (ode_y ode)"
    and "length (ode_y ode) = unat (ode_length ode)"
    and "unat (ode_length ode) \<noteq> 3 * count_real k2_set sim"
  shows "rebx_spin_sync_pre sim ode y0 = Inl (Exit 1)"
proof -
  have "length (ode_y ode) < 2 ^ 32"
    unfolding assms(5) using unsigned_less [of "ode_length ode", where 'a = nat] by simp
  with sync_pre_returns [of "[0..<nat (sim_N sim - sim_N_var sim)]" "sim_particles sim" 0 "ode_y ode"]
    assms(3,4)
  obtain s where s: "spin_sync_pre_scan sim ode = Inr s"
    by (auto simp: spin_sync_pre_scan_def count_real_def)
  from sync_pre_count [OF s [unfolded spin_sync_pre_scan_def]]
  have f: "fst s = 0 + of_nat (count_real k2_set sim)"
    by (simp add: count_real_def)
  have "3 * count_real k2_set sim < 2 ^ 32"
    using count_real_le [of k2_set sim] assms(2) by simp
  then have "unat (fst s * 3) = 3 * count_real k2_set sim"
    unfolding f by (rule word3_count)
  with assms(6) have "ode_length ode \<noteq> fst s * 3"
    by auto
  then show ?thesis
    by (simp add: rebx_spin_sync_pre_def assms(1) s)
qed

lemma sync_post_exit:
  assumes "ode_ref ode = Simulation_pointer"
    and "3 * nat (sim_N sim - sim_N_var sim) < 2 ^ 32"
    and "3 * count_real k2_set sim \<le> length y0"
    and "length y0 = unat (ode_length ode)"
    and "unat (ode_length ode) \<noteq> 3 * count_real k2_set sim"
  shows "rebx_spin_sync_post sim ode y0 = Inl (Exit 0)"
proof -
  have "length y0 < 2 ^ 32"
    unfolding assms(4) using unsigned_less [of "ode_length ode", where 'a = nat] by simp
  with sync_post_returns [of 0 "sim_particles sim" "[0..<nat (sim_N sim - sim_N_var sim)]" y0]
    assms(3)
  obtain s where s: "spin_sync_post_scan sim y0 = Inr s"
    by (auto simp: spin_sync_post_scan_def count_real_def)
  from sync_post_count [OF s [unfolded spin_sync_post_scan_def]]
  have f: "fst s = 0 + of_nat (count_real k2_set sim)"
    by (simp add: count_real_def)
  have "3 * count_real k2_set sim < 2 ^ 32"
    using count_real_le [of k2_set sim] assms(2) by simp
  then have "unat (fst s * 3) = 3 * count_real k2_set sim"
    unfolding f by (rule word3_count)
  with assms(5) have "ode_length ode \<noteq> fst s * 3"
    by auto
  then show ?thesis
    by (simp add: rebx_spin_sync_post_def assms(1) s)
qed

text \<open>A scan with more bodies than the vector has slots leaves the vector.\<close>

lemma sync_pre_body_outside:
  assumes "k2_set (ps ! i)" and "spin_tracked (ps ! i)" and "\<not> 3 * c + 2 < length y"
    and w: "3 * c + 2 < 2 ^ 32"
  shows "spin_sync_pre_body ps i (of_nat c, y) = Inl Out_of_bounds"
  using assms(1-3)
  by (auto simp: spin_sync_pre_body_def k2_set_def spin_tracked_def Let_def word3_index [OF w])

lemma sync_post_body_outside:
  assumes "k2_set (ps ! i)" and "\<not> 3 * c + 2 < length y0" and w: "3 * c + 2 < 2 ^ 32"
  shows "spin_sync_post_body y0 i (of_nat c, ps) = Inl Out_of_bounds"
  using assms(1,2)
  by (simp add: spin_sync_post_body_def k2_set_def Let_def word3_index [OF w])

lemma sync_pre_overrun:
  assumes "\<forall>i\<in>set xs. k2_set (ps ! i) \<longrightarrow> spin_tracked (ps ! i)"
    and "length y < 3 * (c + length (filter (\<lambda>i. k2_set (ps ! i)) xs))"
    and "3 * (c + length (filter (\<lambda>i. k2_set (ps ! i)) xs)) < 2 ^ 32"
    and "3 * c \<le> length y"
  shows "for_each (spin_sync_pre_body ps) xs (of_nat c, y) = Inl Out_of_bounds"
  using assms
proof (induction xs arbitrary: c y)
  case Nil
  then show ?case by simp
next
  case (Cons i xs)
  show ?case
  proof (cases "k2_set (ps ! i)")
    case True
    from True Cons.prems(1) have t: "spin_tracked (ps ! i)"
      by simp
    from True Cons.prems(3) have w: "3 * c + 2 < 2 ^ 32"
      by simp
    show ?thesis
    proof (cases "3 * c + 2 < length y")
      case inside: True
      have "\<exists>y'. spin_sync_pre_body ps i (of_nat c, y) = Inr (of_nat (Suc c), y') \<and> length y' = length y"
        using True t inside
        by (simp add: spin_sync_pre_body_def k2_set_def spin_tracked_def Let_def word3_index [OF w])
      then obtain y' where s: "spin_sync_pre_body ps i (of_nat c, y) = Inr (of_nat (Suc c), y')"
        and l: "length y' = length y"
        by blast
      have "for_each (spin_sync_pre_body ps) xs (of_nat (Suc c), y') = Inl Out_of_bounds"
        using Cons.prems True inside by (intro Cons.IH) (simp_all add: l)
      then show ?thesis
        by (simp add: s)
    next
      case False
      from sync_pre_body_outside [OF True t False w] show ?thesis
        by simp
    qed
  next
    case False
    have "for_each (spin_sync_pre_body ps) xs (of_nat c, y) = Inl Out_of_bounds"
      using Cons.prems False by (intro Cons.IH) simp_all
    then show ?thesis
      by (simp add: sync_pre_body_skip [OF False])
  qed
qed

lemma sync_post_overrun:
  assumes "length y0 < 3 * (c + length (filter (\<lambda>i. k2_set (ps ! i)) xs))"
    and "3 * (c + length (filter (\<lambda>i. k2_set (ps ! i)) xs)) < 2 ^ 32"
    and "3 * c \<le> length y0"
  shows "for_each (spin_sync_post_body y0) xs (of_nat c, ps) = Inl Out_of_bounds"
  using assms
proof (induction xs arbitrary: c ps)
  case Nil
  then show ?case by simp
next
  case (Cons i xs)
  show ?case
  proof (cases "k2_set (ps ! i)")
    case True
    from True Cons.prems(2) have w: "3 * c + 2 < 2 ^ 32"
      by simp
    show ?thesis
    proof (cases "3 * c + 2 < length y0")
      case inside: True
      have "\<exists>ps'. spin_sync_post_body y0 i (of_nat c, ps) = Inr (of_nat (Suc c), ps')"
        using True inside
        by (simp add: spin_sync_post_body_def k2_set_def Let_def word3_index [OF w])
      then obtain ps' where s: "spin_sync_post_body y0 i (of_nat c, ps) = Inr (of_nat (Suc c), ps')"
        by blast
      have k: "(\<lambda>i. k2_set (ps' ! i)) = (\<lambda>i. k2_set (ps ! i))"
        using sync_post_body_k2 [OF s] by auto
      have "for_each (spin_sync_post_body y0) xs (of_nat (Suc c), ps') = Inl Out_of_bounds"
        using Cons.prems True inside by (intro Cons.IH) (simp_all add: k)
      then show ?thesis
        by (simp add: s)
    next
      case False
      from sync_post_body_outside [OF True False w] show ?thesis
        by simp
    qed
  next
    case False
    then have f: "\<not> k2_set (snd (of_nat c :: 32 word, ps) ! i)"
      by simp
    have "for_each (spin_sync_post_body y0) xs (of_nat c, ps) = Inl Out_of_bounds"
      using Cons.prems False by (intro Cons.IH) simp_all
    then show ?thesis
      by (simp add: sync_post_body_skip [OF f])
  qed
qed

lemma sync_pre_out_of_bounds:
  assumes "ode_ref ode = Simulation_pointer"
    and "3 * nat (sim_N sim - sim_N_var sim) < 2 ^ 32"
    and "\<forall>i < nat (sim_N sim - sim_N_var sim).
           k2_set (sim_particles sim ! i) \<longrightarrow> spin_tracked (sim_particles sim ! i)"
    and "length (ode_y ode) < 3 * count_real k2_set sim"
  shows "rebx_spin_sync_pre sim ode y0 = Inl Out_of_bounds"
proof -
  have "3 * count_real k2_set sim < 2 ^ 32"
    using count_real_le [of k2_set sim] assms(2) by simp
  with sync_pre_overrun [of "[0..<nat (sim_N sim - sim_N_var sim)]" "sim_particles sim" "ode_y ode" 0]
    assms(3,4)
  have "spin_sync_pre_scan sim ode = Inl Out_of_bounds"
    by (simp add: spin_sync_pre_scan_def count_real_def)
  then show ?thesis
    by (simp add: rebx_spin_sync_pre_def assms(1))
qed

lemma sync_post_out_of_bounds:
  assumes "ode_ref ode = Simulation_pointer"
    and "3 * nat (sim_N sim - sim_N_var sim) < 2 ^ 32"
    and "length y0 < 3 * count_real k2_set sim"
  shows "rebx_spin_sync_post sim ode y0 = Inl Out_of_bounds"
proof -
  have "3 * count_real k2_set sim < 2 ^ 32"
    using count_real_le [of k2_set sim] assms(2) by simp
  with sync_post_overrun [of y0 0 "sim_particles sim" "[0..<nat (sim_N sim - sim_N_var sim)]"]
    assms(3)
  have "spin_sync_post_scan sim y0 = Inl Out_of_bounds"
    by (simp add: spin_sync_post_scan_def count_real_def)
  then show ?thesis
    by (simp add: rebx_spin_sync_post_def assms(1))
qed

lemma replicate3: "replicate 3 x = [x, x, x]"
  by (simp add: numeral_3_eq_3)

lemma update2: "[a, b, c][2 := v] = [a, b, v]"
  by (simp add: numeral_2_eq_2)

text \<open>
  C4. The specification has the pre-step and the post-step validate the length of the
  state vector against 3 times the number of bodies with \<open>moi\<close>, \<open>sx\<close>, \<open>sy\<close>, \<open>sz\<close> set,
  the criterion of ODE creation, and abort on a mismatch before any spin tag is written.
  The code counts the bodies with \<open>k2\<close> set and compares after its loop. On two bodies with
  \<open>moi\<close> and a spin, only the first with \<open>k2\<close>, \<^verbatim>\<open>rebx_spin_initialize_ode\<close> creates an ODE
  of length 6, which matches the two bodies; the pre-step on that ODE ends in \<^verbatim>\<open>exit(1)\<close>,
  and the post-step ends in \<^verbatim>\<open>exit(0)\<close> after its loop has overwritten the spin tags of
  the first body. An ODE of length 3 does not match the two bodies, and the pre-step
  returns normally. On two bodies with \<open>k2\<close> and a spin, only the first with \<open>moi\<close>, ODE
  creation gives length 3 and the pre-step writes past the state vector.
\<close>

theorem sync_after_initialize:
  "count_real spin_tracked mixed_sim = 2
   \<and> rebx_spin_initialize_ode \<lparr>rebx_sim = Some mixed_sim\<rparr> \<lparr>force_ap = Map.empty\<rparr>
       = Inr (\<lparr>rebx_sim = Some (mixed_sim\<lparr>sim_odes := [registered_spin_ode 2]\<rparr>)\<rparr>,
              \<lparr>force_ap = [''ode'' \<mapsto> 0]\<rparr>)
   \<and> unat (ode_length (registered_spin_ode 2)) = 3 * count_real spin_tracked mixed_sim
   \<and> rebx_spin_sync_pre (mixed_sim\<lparr>sim_odes := [registered_spin_ode 2]\<rparr>) (registered_spin_ode 2)
         [0, 0, 0, 0, 0, 0] = Inl (Exit 1)
   \<and> map spin_tags (sim_particles (mixed_sim\<lparr>sim_odes := [registered_spin_ode 2]\<rparr>))
       = [(Some 0, Some 0, Some 1), (Some 0, Some 0, Some 1)]
   \<and> map_sum id (map_prod id (map spin_tags))
         (spin_sync_post_scan (mixed_sim\<lparr>sim_odes := [registered_spin_ode 2]\<rparr>) [5, 6, 7, 8, 9, 10])
       = Inr (1, [(Some 5, Some 6, Some 7), (Some 0, Some 0, Some 1)])
   \<and> rebx_spin_sync_post (mixed_sim\<lparr>sim_odes := [registered_spin_ode 2]\<rparr>) (registered_spin_ode 2)
         [5, 6, 7, 8, 9, 10] = Inl (Exit 0)
   \<and> unat (ode_length (spin_ode_of_length 3)) \<noteq> 3 * count_real spin_tracked mixed_sim
   \<and> rebx_spin_sync_pre mixed_sim (spin_ode_of_length 3) [5, 6, 7]
       = Inr ((spin_ode_of_length 3)\<lparr>ode_y := [0, 0, 1]\<rparr>)
   \<and> count_real spin_tracked stationary_spin_sim = 1
   \<and> rebx_spin_initialize_ode \<lparr>rebx_sim = Some stationary_spin_sim\<rparr> \<lparr>force_ap = Map.empty\<rparr>
       = Inr (\<lparr>rebx_sim = Some (stationary_spin_sim\<lparr>sim_odes := [registered_spin_ode 1]\<rparr>)\<rparr>,
              \<lparr>force_ap = [''ode'' \<mapsto> 0]\<rparr>)
   \<and> rebx_spin_sync_pre (stationary_spin_sim\<lparr>sim_odes := [registered_spin_ode 1]\<rparr>)
         (registered_spin_ode 1) [0, 0, 0] = Inl Out_of_bounds"
proof -
  have u: "[0..<2] = [0, Suc 0]"
    by (simp add: upt_rec)
  have rep: "replicate 6 (0::real) = [0, 0, 0, 0, 0, 0]"
    by (simp add: eval_nat_numeral)
  have c: "count_real spin_tracked mixed_sim = 2"
    by (simp add: count_real_def mixed_sim_def u spin_tracked_def rebx_get_param_def
        full_body_def rigid_body_def body1_def body0_def)
  have c1: "count_real spin_tracked stationary_spin_sim = 1"
    by (simp add: count_real_def stationary_spin_sim_def u spin_tracked_def rebx_get_param_def
        full_body_def spinning_body_def body1_def body0_def)
  have i: "rebx_spin_initialize_ode \<lparr>rebx_sim = Some mixed_sim\<rparr> \<lparr>force_ap = Map.empty\<rparr>
       = Inr (\<lparr>rebx_sim = Some (mixed_sim\<lparr>sim_odes := [registered_spin_ode 2]\<rparr>)\<rparr>,
              \<lparr>force_ap = [''ode'' \<mapsto> 0]\<rparr>)"
    by (simp add: rebx_spin_initialize_ode_def mixed_sim_def u spin_initialize_count_def
        rebx_get_param_def reb_create_ode_def registered_spin_ode_def rebx_set_param_pointer_def
        full_body_def rigid_body_def body1_def body0_def)
  have i1: "rebx_spin_initialize_ode \<lparr>rebx_sim = Some stationary_spin_sim\<rparr> \<lparr>force_ap = Map.empty\<rparr>
       = Inr (\<lparr>rebx_sim = Some (stationary_spin_sim\<lparr>sim_odes := [registered_spin_ode 1]\<rparr>)\<rparr>,
              \<lparr>force_ap = [''ode'' \<mapsto> 0]\<rparr>)"
    by (simp add: rebx_spin_initialize_ode_def stationary_spin_sim_def u spin_initialize_count_def
        rebx_get_param_def reb_create_ode_def registered_spin_ode_def rebx_set_param_pointer_def
        full_body_def spinning_body_def body1_def body0_def)
  have l: "unat (ode_length (registered_spin_ode 2)) = 3 * count_real spin_tracked mixed_sim"
    by (simp add: c registered_spin_ode_def)
  have p6: "rebx_spin_sync_pre (mixed_sim\<lparr>sim_odes := [registered_spin_ode 2]\<rparr>) (registered_spin_ode 2)
         [0, 0, 0, 0, 0, 0] = Inl (Exit 1)"
    by (simp add: rebx_spin_sync_pre_def spin_sync_pre_scan_def mixed_sim_def u
        spin_sync_pre_body_def registered_spin_ode_def rebx_get_param_def rep
        full_body_def rigid_body_def body1_def body0_def)
  have t: "map spin_tags (sim_particles (mixed_sim\<lparr>sim_odes := [registered_spin_ode 2]\<rparr>))
       = [(Some 0, Some 0, Some 1), (Some 0, Some 0, Some 1)]"
    by (simp add: mixed_sim_def spin_tags_def rebx_get_param_def
        full_body_def rigid_body_def body1_def body0_def)
  have s: "spin_sync_post_scan (mixed_sim\<lparr>sim_odes := [registered_spin_ode 2]\<rparr>) [5, 6, 7, 8, 9, 10]
       = Inr (1, [full_body\<lparr>p_ap := (p_ap full_body)(''sx'' \<mapsto> 5, ''sy'' \<mapsto> 6, ''sz'' \<mapsto> 7)\<rparr>,
                  rigid_body\<lparr>p_x := 0\<rparr>])"
    by (simp add: spin_sync_post_scan_def mixed_sim_def u spin_sync_post_body_def
        rebx_get_param_def rebx_set_param_double_def full_body_def rigid_body_def
        body1_def body0_def)
  have r: "ode_ref (registered_spin_ode 2) = Simulation_pointer"
    "ode_length (registered_spin_ode 2) = 6"
    by (simp_all add: registered_spin_ode_def)
  have q: "rebx_spin_sync_post (mixed_sim\<lparr>sim_odes := [registered_spin_ode 2]\<rparr>) (registered_spin_ode 2)
         [5, 6, 7, 8, 9, 10] = Inl (Exit 0)"
    by (simp add: rebx_spin_sync_post_def s r)
  have s': "map_sum id (map_prod id (map spin_tags))
         (spin_sync_post_scan (mixed_sim\<lparr>sim_odes := [registered_spin_ode 2]\<rparr>) [5, 6, 7, 8, 9, 10])
       = Inr (1, [(Some 5, Some 6, Some 7), (Some 0, Some 0, Some 1)])"
    unfolding s
    by (simp add: spin_tags_def rebx_get_param_def full_body_def rigid_body_def body1_def body0_def)
  have m3: "unat (ode_length (spin_ode_of_length 3)) \<noteq> 3 * count_real spin_tracked mixed_sim"
    by (simp add: c spin_ode_of_length_def)
  have p3: "rebx_spin_sync_pre mixed_sim (spin_ode_of_length 3) [5, 6, 7]
       = Inr ((spin_ode_of_length 3)\<lparr>ode_y := [0, 0, 1]\<rparr>)"
    by (simp add: rebx_spin_sync_pre_def spin_sync_pre_scan_def mixed_sim_def u
        spin_sync_pre_body_def spin_ode_of_length_def rebx_get_param_def
        full_body_def rigid_body_def body1_def body0_def replicate3 update2)
  have o: "rebx_spin_sync_pre (stationary_spin_sim\<lparr>sim_odes := [registered_spin_ode 1]\<rparr>)
         (registered_spin_ode 1) [0, 0, 0] = Inl Out_of_bounds"
    by (simp add: rebx_spin_sync_pre_def spin_sync_pre_scan_def stationary_spin_sim_def u
        spin_sync_pre_body_def registered_spin_ode_def rebx_get_param_def
        full_body_def spinning_body_def body1_def body0_def replicate3 update2)
  from c i l p6 t s' q m3 p3 c1 i1 o show ?thesis
    by blast
qed

section \<open>The spin derivative function: the torque sums\<close>

lemma spin_slot_Suc:
  "spin_slot sim (Suc m) =
     (if spin_evolving (sim_particles sim ! m) then Suc (spin_slot sim m) else spin_slot sim m)"
  by (simp add: spin_slot_def)

lemma spin_slot_mono:
  assumes "a \<le> b"
  shows "spin_slot sim a \<le> spin_slot sim b"
proof -
  from assms obtain d where "b = a + d"
    by (auto simp: le_iff_add)
  then have "[0..<b] = [0..<a] @ [a..<b]"
    using upt_add_eq_append [of 0 a d] by simp
  then show ?thesis
    by (simp add: spin_slot_def)
qed

lemma spin_slot_count: "count_real spin_evolving sim = spin_slot sim (nat (sim_N sim - sim_N_var sim))"
  by (simp add: count_real_def spin_slot_def)

lemma target_step:
  fixes sim :: reb_simulation and k2 sg moi sx sy sz :: real and i j :: nat
  assumes "3 * k + 2 < length yd" and w: "3 * k + 2 < 2 ^ 32"
  defines "tq \<equiv> pair_torque (sim_G sim) k2 sg moi (vec3 sx sy sz)
                   (sim_particles sim ! i) (sim_particles sim ! j)"
  shows "spin_derivatives_target sim i k2 sg moi sx sy sz (of_nat k) j yd =
     (if i \<noteq> j then
        yd[3 * k := yd ! (3 * k) + vec_x tq,
           3 * k + 1 := yd ! (3 * k + 1) + vec_y tq,
           3 * k + 2 := yd ! (3 * k + 2) + vec_z tq]
      else yd)"
  unfolding spin_derivatives_target_def Let_def word3_index [OF w] tq_def
  by (simp add: pair_torque_def vscale_def vcross_def separation_def position_def vsub_def
      reduced_mass_def mult.commute)

lemma target_fold:
  fixes sim :: reb_simulation and k2 sg moi sx sy sz :: real and i :: nat and js :: "nat list"
    and yd :: "real list"
  assumes "3 * k + 2 < length yd" and w: "3 * k + 2 < 2 ^ 32"
  defines "tq \<equiv> \<lambda>j. if i \<noteq> j
                      then pair_torque (sim_G sim) k2 sg moi (vec3 sx sy sz)
                             (sim_particles sim ! i) (sim_particles sim ! j)
                      else vec3 0 0 0"
  defines "r \<equiv> fold (spin_derivatives_target sim i k2 sg moi sx sy sz (of_nat k)) js yd"
  shows "length r = length yd
       \<and> r ! (3 * k) = yd ! (3 * k) + sum_list (map (\<lambda>j. vec_x (tq j)) js)
       \<and> r ! (3 * k + 1) = yd ! (3 * k + 1) + sum_list (map (\<lambda>j. vec_y (tq j)) js)
       \<and> r ! (3 * k + 2) = yd ! (3 * k + 2) + sum_list (map (\<lambda>j. vec_z (tq j)) js)
       \<and> (\<forall>m < 3 * k. r ! m = yd ! m)"
  using assms(1) unfolding r_def
proof (induction js arbitrary: yd)
  case Nil
  then show ?case by simp
next
  case (Cons j js)
  define yd1 where "yd1 = spin_derivatives_target sim i k2 sg moi sx sy sz (of_nat k) j yd"
  have s: "yd1 = (if i \<noteq> j then
              yd[3 * k := yd ! (3 * k) + vec_x (tq j),
                 3 * k + 1 := yd ! (3 * k + 1) + vec_y (tq j),
                 3 * k + 2 := yd ! (3 * k + 2) + vec_z (tq j)]
            else yd)"
    unfolding yd1_def target_step [OF Cons.prems w] tq_def by simp
  have l: "length yd1 = length yd"
    by (simp add: s)
  from Cons.prems have b: "3 * k < length yd" "3 * k + 1 < length yd" "3 * k + 2 < length yd"
    by simp_all
  have v: "yd1 ! (3 * k) = yd ! (3 * k) + vec_x (tq j)"
    "yd1 ! (3 * k + 1) = yd ! (3 * k + 1) + vec_y (tq j)"
    "yd1 ! (3 * k + 2) = yd ! (3 * k + 2) + vec_z (tq j)"
    using b by (simp_all add: s tq_def)
  have f: "yd1 ! m = yd ! m" if "m < 3 * k" for m
    using that by (simp add: s)
  from Cons.prems have "3 * k + 2 < length yd1"
    by (simp add: l)
  from Cons.IH [OF this] l v f show ?case
    by (simp add: yd1_def [symmetric])
qed

lemma derivatives_body_skip:
  assumes "\<not> spin_evolving (sim_particles sim ! i)"
  shows "spin_derivatives_body sim y i s = Inr s"
  using assms by (auto simp: spin_derivatives_body_def spin_evolving_def Let_def)

lemma derivatives_body_evolving:
  fixes sim :: reb_simulation and y :: "real list" and i :: nat
  assumes e: "spin_evolving (sim_particles sim ! i)"
    and b: "3 * k + 2 < length yd" and b2: "3 * k + 2 < length y" and w: "3 * k + 2 < 2 ^ 32"
  defines "p_i \<equiv> sim_particles sim ! i"
  defines "tq \<equiv> \<lambda>j. if i \<noteq> j
       then pair_torque (sim_G sim) (the (rebx_get_param (p_ap p_i) ''k2''))
              (case rebx_get_param (p_ap p_i) ''sigma'' of None \<Rightarrow> 0 | Some s \<Rightarrow> s)
              (the (rebx_get_param (p_ap p_i) ''moi''))
              (vec3 (y ! (3 * k)) (y ! (3 * k + 1)) (y ! (3 * k + 2)))
              p_i (sim_particles sim ! j)
       else vec3 0 0 0"
  shows "\<exists>r. spin_derivatives_body sim y i (of_nat k, yd) = Inr (of_nat (Suc k), r)
       \<and> length r = length yd
       \<and> r ! (3 * k) = sum_list (map (\<lambda>j. vec_x (tq j)) [0..<nat (sim_N sim - sim_N_var sim)])
       \<and> r ! (3 * k + 1) = sum_list (map (\<lambda>j. vec_y (tq j)) [0..<nat (sim_N sim - sim_N_var sim)])
       \<and> r ! (3 * k + 2) = sum_list (map (\<lambda>j. vec_z (tq j)) [0..<nat (sim_N sim - sim_N_var sim)])
       \<and> (\<forall>m < 3 * k. r ! m = yd ! m)"
proof -
  define sg where "sg = (case rebx_get_param (p_ap p_i) ''sigma'' of None \<Rightarrow> 0 | Some s \<Rightarrow> s)"
  define yd0 where "yd0 = yd[3 * k := 0, 3 * k + 1 := 0, 3 * k + 2 := 0]"
  define r where "r = fold (spin_derivatives_target sim i (the (rebx_get_param (p_ap p_i) ''k2'')) sg
      (the (rebx_get_param (p_ap p_i) ''moi'')) (y ! (3 * k)) (y ! (3 * k + 1)) (y ! (3 * k + 2))
      (of_nat k)) [0..<nat (sim_N sim - sim_N_var sim)] yd0"
  have sg: "(if rebx_get_param (p_ap p_i) ''sigma'' \<noteq> None
             then the (rebx_get_param (p_ap p_i) ''sigma'') else 0) = sg"
    by (simp add: sg_def split: option.splits)
  note ix = word3_index [OF w]
  have step: "spin_derivatives_body sim y i (of_nat k, yd) = Inr (of_nat (Suc k), r)"
    using e b b2
    unfolding spin_derivatives_body_def Let_def fst_conv snd_conv ix p_i_def [symmetric] sg
    by (simp add: spin_evolving_def p_i_def r_def yd0_def)
  have l0: "length yd0 = length yd" and z: "yd0 ! (3 * k) = 0" "yd0 ! (3 * k + 1) = 0"
    "yd0 ! (3 * k + 2) = 0" and f0: "\<And>m. m < 3 * k \<Longrightarrow> yd0 ! m = yd ! m"
    using b by (simp_all add: yd0_def)
  from b have "3 * k + 2 < length yd0"
    by (simp add: l0)
  from target_fold [OF this w, of sim i "the (rebx_get_param (p_ap p_i) ''k2'')" sg
      "the (rebx_get_param (p_ap p_i) ''moi'')" "y ! (3 * k)" "y ! (3 * k + 1)" "y ! (3 * k + 2)"
      "[0..<nat (sim_N sim - sim_N_var sim)]"]
  have "length r = length yd
       \<and> r ! (3 * k) = sum_list (map (\<lambda>j. vec_x (tq j)) [0..<nat (sim_N sim - sim_N_var sim)])
       \<and> r ! (3 * k + 1) = sum_list (map (\<lambda>j. vec_y (tq j)) [0..<nat (sim_N sim - sim_N_var sim)])
       \<and> r ! (3 * k + 2) = sum_list (map (\<lambda>j. vec_z (tq j)) [0..<nat (sim_N sim - sim_N_var sim)])
       \<and> (\<forall>m < 3 * k. r ! m = yd ! m)"
    unfolding r_def [symmetric] tq_def sg_def [symmetric] p_i_def [symmetric]
    using l0 z f0 by simp
  with step show ?thesis
    by blast
qed

lemma derivatives_loop:
  fixes sim :: reb_simulation and y yd0 :: "real list"
  defines "n \<equiv> nat (sim_N sim - sim_N_var sim)"
  defines "tq \<equiv> \<lambda>k j. if k \<noteq> j then spin_torque sim y k j else vec3 0 0 0"
  assumes len: "3 * spin_slot sim n \<le> length yd0" and ly: "length y = length yd0"
    and lw: "length yd0 < 2 ^ 32" and m: "m \<le> n"
  shows "\<exists>r. for_each (spin_derivatives_body sim y) [0..<m] (0, yd0) = Inr (of_nat (spin_slot sim m), r)
       \<and> length r = length yd0
       \<and> (\<forall>k < m. spin_evolving (sim_particles sim ! k) \<longrightarrow>
             r ! (3 * spin_slot sim k) = sum_list (map (\<lambda>j. vec_x (tq k j)) [0..<n])
           \<and> r ! (3 * spin_slot sim k + 1) = sum_list (map (\<lambda>j. vec_y (tq k j)) [0..<n])
           \<and> r ! (3 * spin_slot sim k + 2) = sum_list (map (\<lambda>j. vec_z (tq k j)) [0..<n]))"
  using m
proof (induction m)
  case 0
  then show ?case
    by (simp add: spin_slot_def)
next
  case (Suc m)
  then have "m \<le> n"
    by simp
  from Suc.IH [OF this] obtain r
    where run: "for_each (spin_derivatives_body sim y) [0..<m] (0, yd0) = Inr (of_nat (spin_slot sim m), r)"
      and lr: "length r = length yd0"
      and val: "\<And>k. k < m \<Longrightarrow> spin_evolving (sim_particles sim ! k) \<Longrightarrow>
             r ! (3 * spin_slot sim k) = sum_list (map (\<lambda>j. vec_x (tq k j)) [0..<n])
           \<and> r ! (3 * spin_slot sim k + 1) = sum_list (map (\<lambda>j. vec_y (tq k j)) [0..<n])
           \<and> r ! (3 * spin_slot sim k + 2) = sum_list (map (\<lambda>j. vec_z (tq k j)) [0..<n])"
    by blast
  have split: "for_each (spin_derivatives_body sim y) [0..<Suc m] (0, yd0)
      = (case spin_derivatives_body sim y m (of_nat (spin_slot sim m), r) of
           Inl e \<Rightarrow> Inl e | Inr s' \<Rightarrow> Inr s')"
    by (simp add: for_each_append run split: sum.splits)
  show ?case
  proof (cases "spin_evolving (sim_particles sim ! m)")
    case False
    then have sl: "spin_slot sim (Suc m) = spin_slot sim m"
      by (simp add: spin_slot_Suc)
    have "for_each (spin_derivatives_body sim y) [0..<Suc m] (0, yd0) = Inr (of_nat (spin_slot sim (Suc m)), r)"
      unfolding split sl by (simp add: derivatives_body_skip [OF False])
    moreover have "k < m" if "k < Suc m" "spin_evolving (sim_particles sim ! k)" for k
      using that False by (cases "k = m") simp_all
    ultimately show ?thesis
      using lr val by blast
  next
    case True
    then have sl: "spin_slot sim (Suc m) = Suc (spin_slot sim m)"
      by (simp add: spin_slot_Suc)
    from spin_slot_mono [OF Suc.prems, of sim] len
    have b: "3 * spin_slot sim m + 2 < length r"
      by (simp add: sl lr)
    then have b2: "3 * spin_slot sim m + 2 < length y" and w: "3 * spin_slot sim m + 2 < 2 ^ 32"
      using ly lw by (simp_all add: lr)
    from derivatives_body_evolving [OF True b b2 w]
    obtain r' where st: "spin_derivatives_body sim y m (of_nat (spin_slot sim m), r)
                           = Inr (of_nat (Suc (spin_slot sim m)), r')"
      and lr': "length r' = length r"
      and vx: "r' ! (3 * spin_slot sim m) = sum_list (map (\<lambda>j. vec_x (tq m j)) [0..<n])"
      and vy: "r' ! (3 * spin_slot sim m + 1) = sum_list (map (\<lambda>j. vec_y (tq m j)) [0..<n])"
      and vz: "r' ! (3 * spin_slot sim m + 2) = sum_list (map (\<lambda>j. vec_z (tq m j)) [0..<n])"
      and fr: "\<And>q. q < 3 * spin_slot sim m \<Longrightarrow> r' ! q = r ! q"
      unfolding tq_def spin_torque_def Let_def n_def by blast
    have run': "for_each (spin_derivatives_body sim y) [0..<Suc m] (0, yd0)
                  = Inr (of_nat (spin_slot sim (Suc m)), r')"
      unfolding split sl by (simp add: st)
    have "r' ! (3 * spin_slot sim k) = sum_list (map (\<lambda>j. vec_x (tq k j)) [0..<n])
           \<and> r' ! (3 * spin_slot sim k + 1) = sum_list (map (\<lambda>j. vec_y (tq k j)) [0..<n])
           \<and> r' ! (3 * spin_slot sim k + 2) = sum_list (map (\<lambda>j. vec_z (tq k j)) [0..<n])"
      if k: "k < Suc m" and e: "spin_evolving (sim_particles sim ! k)" for k
    proof (cases "k = m")
      case True
      with vx vy vz show ?thesis
        by simp
    next
      case False
      with k have km: "k < m"
        by simp
      then have "Suc k \<le> m"
        by simp
      from spin_slot_mono [OF this, of sim] e
      have "3 * spin_slot sim k + 2 < 3 * spin_slot sim m"
        by (simp add: spin_slot_Suc)
      then have "r' ! (3 * spin_slot sim k) = r ! (3 * spin_slot sim k)"
        "r' ! (3 * spin_slot sim k + 1) = r ! (3 * spin_slot sim k + 1)"
        "r' ! (3 * spin_slot sim k + 2) = r ! (3 * spin_slot sim k + 2)"
        by (simp_all add: fr)
      with val [OF km e] show ?thesis
        by simp
    qed
    with run' lr' lr show ?thesis
      by auto
  qed
qed

lemma sum_list_torque:
  fixes f :: "nat \<Rightarrow> reb_vec3d"
  shows "sum_list (map (\<lambda>j. vec_x (if i \<noteq> j then f j else vec3 0 0 0)) [0..<n])
           = (\<Sum>j | j < n \<and> j \<noteq> i. vec_x (f j))"
    and "sum_list (map (\<lambda>j. vec_y (if i \<noteq> j then f j else vec3 0 0 0)) [0..<n])
           = (\<Sum>j | j < n \<and> j \<noteq> i. vec_y (f j))"
    and "sum_list (map (\<lambda>j. vec_z (if i \<noteq> j then f j else vec3 0 0 0)) [0..<n])
           = (\<Sum>j | j < n \<and> j \<noteq> i. vec_z (f j))"
proof -
  have e: "(\<lambda>j. vec_x (if i \<noteq> j then f j else vec3 0 0 0)) = (\<lambda>j. if j \<noteq> i then vec_x (f j) else 0)"
    "(\<lambda>j. vec_y (if i \<noteq> j then f j else vec3 0 0 0)) = (\<lambda>j. if j \<noteq> i then vec_y (f j) else 0)"
    "(\<lambda>j. vec_z (if i \<noteq> j then f j else vec3 0 0 0)) = (\<lambda>j. if j \<noteq> i then vec_z (f j) else 0)"
    by auto
  show "sum_list (map (\<lambda>j. vec_x (if i \<noteq> j then f j else vec3 0 0 0)) [0..<n])
           = (\<Sum>j | j < n \<and> j \<noteq> i. vec_x (f j))"
    unfolding e by (rule sum_list_upt_filter)
  show "sum_list (map (\<lambda>j. vec_y (if i \<noteq> j then f j else vec3 0 0 0)) [0..<n])
           = (\<Sum>j | j < n \<and> j \<noteq> i. vec_y (f j))"
    unfolding e by (rule sum_list_upt_filter)
  show "sum_list (map (\<lambda>j. vec_z (if i \<noteq> j then f j else vec3 0 0 0)) [0..<n])
           = (\<Sum>j | j < n \<and> j \<noteq> i. vec_z (f j))"
    unfolding e by (rule sum_list_upt_filter)
qed

text \<open>
  C2. Take a call of \<^verbatim>\<open>rebx_spin_derivatives\<close> whose ODE declares 3 times the number of
  eligible real bodies (\<open>k2\<close> and \<open>moi\<close> set) as its length, with \<open>y\<close> and \<open>yDot\<close> of that
  length. The call returns, for every time \<open>t\<close> the same vector, and for every eligible
  real body \<open>i\<close> the three entries at \<open>i\<close>'s slot are the sums, over the other real bodies
  \<open>j\<close>, of the components of \<open>(r_i - r_j) \<times> F_ij\<close> scaled by \<open>- \<mu>_ij / moi_i\<close>, with the spin
  of \<open>F_ij\<close> read from \<open>y\<close> at the slot and \<open>sigma\<close> taken as 0 when it is not set.
\<close>

theorem spin_derivatives_torque:
  assumes "ode_ref ode = Simulation_pointer"
    and "nat (sim_N sim - sim_N_var sim) \<le> length (sim_particles sim)"
    and "unat (ode_length ode) = 3 * count_real spin_evolving sim"
    and "length y = unat (ode_length ode)"
    and "length yDot = unat (ode_length ode)"
    and "i < nat (sim_N sim - sim_N_var sim)"
    and "spin_evolving (sim_particles sim ! i)"
  shows "\<exists>yDot'. (\<forall>t. rebx_spin_derivatives sim ode yDot y t = Inr yDot')
       \<and> length yDot' = length yDot
       \<and> yDot' ! (3 * spin_slot sim i)
           = (\<Sum>j | j < nat (sim_N sim - sim_N_var sim) \<and> j \<noteq> i. vec_x (spin_torque sim y i j))
       \<and> yDot' ! (3 * spin_slot sim i + 1)
           = (\<Sum>j | j < nat (sim_N sim - sim_N_var sim) \<and> j \<noteq> i. vec_y (spin_torque sim y i j))
       \<and> yDot' ! (3 * spin_slot sim i + 2)
           = (\<Sum>j | j < nat (sim_N sim - sim_N_var sim) \<and> j \<noteq> i. vec_z (spin_torque sim y i j))"
proof -
  define n where "n = nat (sim_N sim - sim_N_var sim)"
  have c: "unat (ode_length ode) = 3 * spin_slot sim n"
    using assms(3) by (simp add: spin_slot_count n_def)
  have lw: "length yDot < 2 ^ 32"
    unfolding assms(5) using unsigned_less [of "ode_length ode", where 'a = nat] by simp
  have "3 * spin_slot sim n \<le> length yDot" "length y = length yDot"
    by (simp_all add: assms(4,5) c)
  from derivatives_loop [OF this [unfolded n_def] lw order_refl]
  obtain r where run: "for_each (spin_derivatives_body sim y) [0..<n] (0, yDot)
                         = Inr (of_nat (spin_slot sim n), r)"
    and lr: "length r = length yDot"
    and val: "\<And>k. k < n \<Longrightarrow> spin_evolving (sim_particles sim ! k) \<Longrightarrow>
        r ! (3 * spin_slot sim k)
          = sum_list (map (\<lambda>j. vec_x (if k \<noteq> j then spin_torque sim y k j else vec3 0 0 0)) [0..<n])
      \<and> r ! (3 * spin_slot sim k + 1)
          = sum_list (map (\<lambda>j. vec_y (if k \<noteq> j then spin_torque sim y k j else vec3 0 0 0)) [0..<n])
      \<and> r ! (3 * spin_slot sim k + 2)
          = sum_list (map (\<lambda>j. vec_z (if k \<noteq> j then spin_torque sim y k j else vec3 0 0 0)) [0..<n])"
    unfolding n_def [symmetric] by blast
  have "ode_length ode = of_nat (unat (ode_length ode))"
    by simp
  also have "\<dots> = of_nat (spin_slot sim n) * 3"
    unfolding c by simp
  finally have eq: "ode_length ode = of_nat (spin_slot sim n) * 3" .
  have ret: "rebx_spin_derivatives sim ode yDot y t = Inr r" for t
    by (simp add: rebx_spin_derivatives_def assms(1) n_def [symmetric] run eq)
  from val [OF assms(6) [folded n_def] assms(7)] ret lr show ?thesis
    unfolding sum_list_torque n_def [symmetric] by blast
qed

theorem spin_derivatives_torque_witness:
  "ode_ref (spin_ode_of_length 3) = Simulation_pointer
   \<and> nat (sim_N tracked_sim - sim_N_var tracked_sim) \<le> length (sim_particles tracked_sim)
   \<and> unat (ode_length (spin_ode_of_length 3)) = 3 * count_real spin_evolving tracked_sim
   \<and> length [1, 1, 0 :: real] = unat (ode_length (spin_ode_of_length 3))
   \<and> length [9, 9, 9 :: real] = unat (ode_length (spin_ode_of_length 3))
   \<and> 0 < nat (sim_N tracked_sim - sim_N_var tracked_sim)
   \<and> spin_evolving (sim_particles tracked_sim ! 0)
   \<and> rebx_spin_derivatives tracked_sim (spin_ode_of_length 3) [9, 9, 9] [1, 1, 0] 0 = Inr [0, 0, 1]
   \<and> (\<Sum>j | j < nat (sim_N tracked_sim - sim_N_var tracked_sim) \<and> j \<noteq> 0.
         vec_z (spin_torque tracked_sim [1, 1, 0] 0 j)) = 1"
proof -
  have u: "[0..<2] = [0, Suc 0]"
    by (simp add: upt_rec)
  have h: "ode_ref (spin_ode_of_length 3) = Simulation_pointer"
    "nat (sim_N tracked_sim - sim_N_var tracked_sim) \<le> length (sim_particles tracked_sim)"
    "unat (ode_length (spin_ode_of_length 3)) = 3 * count_real spin_evolving tracked_sim"
    "length [1, 1, 0 :: real] = unat (ode_length (spin_ode_of_length 3))"
    "length [9, 9, 9 :: real] = unat (ode_length (spin_ode_of_length 3))"
    "0 < nat (sim_N tracked_sim - sim_N_var tracked_sim)"
    "spin_evolving (sim_particles tracked_sim ! 0)"
    by (simp_all add: spin_ode_of_length_def tracked_sim_def count_real_def u spin_evolving_def
        rebx_get_param_def full_body_def body1_def body0_def)
  have k: "rebx_calculate_spin_orbit_accelerations full_body body0 1 1 0 1 1 0 = vec3 (- 11) (- 2) 0"
    by (simp add: rebx_calculate_spin_orbit_accelerations_def full_body_def body1_def body0_def
        vec3_def)
  have f: "p_x full_body = 1" "p_y full_body = 0" "p_z full_body = 0" "p_m full_body = 1"
    "p_x body0 = 0" "p_y body0 = 0" "p_z body0 = 0" "p_m body0 = 1"
    "rebx_get_param (p_ap full_body) ''k2'' = Some 1"
    "rebx_get_param (p_ap full_body) ''moi'' = Some 1"
    "rebx_get_param (p_ap full_body) ''sigma'' = None"
    "rebx_get_param (p_ap body0) ''k2'' = None"
    by (simp_all add: rebx_get_param_def full_body_def body1_def body0_def)
  have v: "rebx_spin_derivatives tracked_sim (spin_ode_of_length 3) [9, 9, 9] [1, 1, 0] 0
             = Inr [0, 0, 1]"
    by (simp add: rebx_spin_derivatives_def spin_ode_of_length_def tracked_sim_def u
        spin_derivatives_body_def spin_derivatives_target_def Let_def f k update2)
  from spin_derivatives_torque [OF h] obtain yDot'
    where r: "rebx_spin_derivatives tracked_sim (spin_ode_of_length 3) [9, 9, 9] [1, 1, 0] 0 = Inr yDot'"
      and z: "yDot' ! (3 * spin_slot tracked_sim 0 + 2)
           = (\<Sum>j | j < nat (sim_N tracked_sim - sim_N_var tracked_sim) \<and> j \<noteq> 0.
                vec_z (spin_torque tracked_sim [1, 1, 0] 0 j))"
    by blast
  from r v have "yDot' = [0, 0, 1]"
    by simp
  with z have "(\<Sum>j | j < nat (sim_N tracked_sim - sim_N_var tracked_sim) \<and> j \<noteq> 0.
                vec_z (spin_torque tracked_sim [1, 1, 0] 0 j)) = 1"
    by (simp add: spin_slot_def)
  with h v show ?thesis
    by simp
qed

end
